theory Spec2Isabelle
  imports Complex_Main
begin

section \<open>Python values and built-ins used by bot.py\<close>

text \<open>
  A Python \<open>str\<close> is modelled as an Isabelle \<open>string\<close>: a list of characters, each a
  code point below 256. \<open>len\<close> is \<open>length\<close>, \<open>s[:k]\<close> is \<open>take k s\<close> and \<open>+\<close> is \<open>@\<close>.
  Integers are unbounded (\<open>int\<close>). A \<open>datetime\<close> is the number of microseconds since the
  epoch and a \<open>timedelta\<close> a number of microseconds, both \<open>int\<close>. The sum of a
  \<open>datetime\<close> and a \<open>timedelta\<close> has to lie in the range of \<open>datetime\<close> (\<open>datetime_add\<close>
  below); the readings of the clock are taken to lie more than a day inside it.
\<close>

type_synonym datetime = int
type_synonym timedelta = int

text \<open>
  An exception is its class and its message (\<open>str(e)\<close>). The classes are those the
  source can tell apart or raises itself, and one for all the others.
\<close>

datatype exn_class =
    TimeoutExpired
  | TypeError
  | AttributeError
  | KeyError
  | OverflowError
  | ValueError
  | JSONDecodeError
  | OtherError

datatype exn = Exn (class_of: exn_class) (str_of: string)

text \<open>
  \<open>datetime.min\<close> and \<open>datetime.max\<close>, the first microsecond of the year 1 and the last
  of the year 9999, counted from the epoch, and the sum \<open>t + d\<close> of a \<open>datetime\<close> and a
  \<open>timedelta\<close>, which raises \<open>OverflowError\<close> outside these bounds.
\<close>

definition DATETIME_MIN :: datetime where
  "DATETIME_MIN = - 62135596800000000"

definition DATETIME_MAX :: datetime where
  "DATETIME_MAX = 253402300799999999"

definition datetime_add :: "datetime \<Rightarrow> timedelta \<Rightarrow> exn + datetime" where
  "datetime_add t d =
     (if DATETIME_MIN \<le> t + d \<and> t + d \<le> DATETIME_MAX then Inr (t + d)
      else Inl (Exn OverflowError ''date value out of range''))"

text \<open>
  The values \<open>json.loads\<close> can produce. A float is not-a-number, an infinity or a finite
  value, which is a rational number.
\<close>

datatype pyfloat = NaN | Inf bool | Finite rat

datatype pyval =
    PyNone
  | PyBool bool
  | PyInt int
  | PyFloat pyfloat
  | PyStr string
  | PyList "pyval list"
  | PyDict "(string \<times> pyval) list"

text \<open>The name of the type of a value, in quotes, as error messages show it.\<close>

fun type_name :: "pyval \<Rightarrow> string" where
  "type_name PyNone = ''NoneType''"
| "type_name (PyBool _) = ''bool''"
| "type_name (PyInt _) = ''int''"
| "type_name (PyFloat _) = ''float''"
| "type_name (PyStr _) = ''str''"
| "type_name (PyList _) = ''list''"
| "type_name (PyDict _) = ''dict''"

definition quoted :: "string \<Rightarrow> string" where
  "quoted t = CHR 0x27 # t @ [CHR 0x27]"

text \<open>Truth value of an object, as \<open>if x:\<close> and \<open>not x\<close> test it.\<close>

fun truthy :: "pyval \<Rightarrow> bool" where
  "truthy PyNone = False"
| "truthy (PyBool b) = b"
| "truthy (PyInt i) = (i \<noteq> 0)"
| "truthy (PyFloat NaN) = True"
| "truthy (PyFloat (Inf _)) = True"
| "truthy (PyFloat (Finite q)) = (q \<noteq> 0)"
| "truthy (PyStr s) = (s \<noteq> [])"
| "truthy (PyList xs) = (xs \<noteq> [])"
| "truthy (PyDict kvs) = (kvs \<noteq> [])"

text \<open>\<open>len(x)\<close>: defined on strings, lists and dicts, \<open>TypeError\<close> on the other values.\<close>

fun py_len :: "pyval \<Rightarrow> exn + nat" where
  "py_len (PyStr s) = Inr (length s)"
| "py_len (PyList xs) = Inr (length xs)"
| "py_len (PyDict kvs) = Inr (length kvs)"
| "py_len x = Inl (Exn TypeError (''object of type '' @ quoted (type_name x) @ '' has no len()''))"

text \<open>
  The slice \<open>x[:n]\<close>: defined on strings and lists, an exception on the other values
  (for a dict the exception and its class depend on the version of the interpreter; it
  is given as \<open>TypeError\<close>).
\<close>

fun slice_to :: "nat \<Rightarrow> pyval \<Rightarrow> exn + pyval" where
  "slice_to n (PyStr s) = Inr (PyStr (take n s))"
| "slice_to n (PyList xs) = Inr (PyList (take n xs))"
| "slice_to n (PyDict kvs) = Inl (Exn TypeError (''unhashable type: '' @ quoted ''slice''))"
| "slice_to n x = Inl (Exn TypeError (quoted (type_name x) @ '' object is not subscriptable''))"

text \<open>\<open>str.isspace\<close> on one character, \<open>str.strip()\<close> and \<open>str.lower()\<close>.\<close>

definition py_isspace :: "char \<Rightarrow> bool" where
  "py_isspace c = ((of_char c :: nat) \<in> {9, 10, 11, 12, 13, 28, 29, 30, 31, 32, 133, 160})"

definition py_strip :: "string \<Rightarrow> string" where
  "py_strip s = rev (dropWhile py_isspace (rev (dropWhile py_isspace s)))"

definition lower_char :: "char \<Rightarrow> char" where
  "lower_char c =
     (let n = (of_char c :: nat)
      in if (65 \<le> n \<and> n \<le> 90) \<or> (192 \<le> n \<and> n \<le> 222 \<and> n \<noteq> 215)
         then char_of (n + 32) else c)"

definition py_lower :: "string \<Rightarrow> string" where
  "py_lower s = map lower_char s"

text \<open>
  \<open>int(s)\<close> on a string: surrounding whitespace is dropped, then an optional sign, then
  decimal digits in groups joined by single underscores. \<open>None\<close> stands for
  \<open>ValueError\<close>. The whitespace \<open>int\<close> drops is not that of \<open>str.strip\<close>: the separators
  U+001C to U+001F are not part of it. A numeral of more than \<open>INT_MAX_STR_DIGITS\<close>
  digits (the default of the interpreter) is refused.
\<close>

definition int_isspace :: "char \<Rightarrow> bool" where
  "int_isspace c = ((of_char c :: nat) \<in> {9, 10, 11, 12, 13, 32, 133, 160})"

definition int_strip :: "string \<Rightarrow> string" where
  "int_strip s = rev (dropWhile int_isspace (rev (dropWhile int_isspace s)))"

definition INT_MAX_STR_DIGITS :: nat where
  "INT_MAX_STR_DIGITS = 4300"

definition is_digit :: "char \<Rightarrow> bool" where
  "is_digit c = (48 \<le> (of_char c :: nat) \<and> (of_char c :: nat) \<le> 57)"

definition digit_val :: "char \<Rightarrow> int" where
  "digit_val c = int (of_char c) - 48"

text \<open>
  \<open>digits acc prev s\<close> reads the rest of a numeral; \<open>prev\<close> tells whether the character
  just read was a digit (an underscore is only allowed between two digits).
\<close>

fun digits :: "int \<Rightarrow> bool \<Rightarrow> string \<Rightarrow> int option" where
  "digits acc prev [] = (if prev then Some acc else None)"
| "digits acc prev (c # cs) =
     (if is_digit c then digits (10 * acc + digit_val c) True cs
      else if c = CHR ''_'' \<and> prev then digits acc False cs
      else None)"

definition unsigned_int :: "string \<Rightarrow> int option" where
  "unsigned_int s =
     (case s of
        [] \<Rightarrow> None
      | c # cs \<Rightarrow>
          if is_digit c \<and> length (filter is_digit s) \<le> INT_MAX_STR_DIGITS
          then digits 0 False s else None)"

definition py_int :: "string \<Rightarrow> int option" where
  "py_int raw =
     (case int_strip raw of
        [] \<Rightarrow> None
      | c # cs \<Rightarrow>
          if c = CHR ''-'' then map_option uminus (unsigned_int cs)
          else if c = CHR ''+'' then unsigned_int cs
          else unsigned_int (c # cs))"

text \<open>
  The slice \<open>xs[i:]\<close>: a negative start counts from the end, and the start is clamped
  to the list.
\<close>

definition slice_from :: "int \<Rightarrow> 'a list \<Rightarrow> 'a list" where
  "slice_from i xs =
     (let n = int (length xs);
          j = (if i < 0 then max (n + i) 0 else min i n)
      in drop (nat j) xs)"

section \<open>Configuration\<close>

text \<open>
  \<open>JOURNAL_SYNC_MODE\<close> and \<open>JOURNAL_SYNC_INTERVAL\<close>, computed at import time from the
  environment variable \<open>JOURNAL_SYNC_MODE\<close> (\<open>None\<close>: the variable is not set, and
  \<open>os.getenv\<close> returns its default \<open>"auto"\<close>).
\<close>

datatype sync_mode = Auto | Timer

definition getenv :: "string option \<Rightarrow> string \<Rightarrow> string" where
  "getenv var dflt = (case var of None \<Rightarrow> dflt | Some v \<Rightarrow> v)"

definition journal_sync_config :: "string option \<Rightarrow> sync_mode \<times> int option" where
  "journal_sync_config var =
     (let sync_mode_raw = getenv var ''auto''
      in if py_lower sync_mode_raw = ''auto'' then (Auto, None)
         else (case py_int sync_mode_raw of
                 Some n \<Rightarrow> (Timer, Some n)
               | None \<Rightarrow> (Auto, None)))"

section \<open>Audit log\<close>

text \<open>
  The file at \<open>AUDIT_LOG_PATH\<close> as \<open>get_recent_audit_entries\<close> sees it: absent, present
  but failing to open or to read, or read as a list of lines (what \<open>readlines\<close> returns).
  \<open>json.loads\<close> is a parameter \<open>loads\<close>; \<open>None\<close> stands for the exception it raises on
  text that is not JSON.
\<close>

datatype audit_file = Missing | Unreadable | Lines "string list"

text \<open>The list comprehension \<open>[json.loads(line) for line in recent]\<close>: the first line
  that fails to parse raises, and the comprehension yields nothing.\<close>

fun loads_each :: "(string \<Rightarrow> 'j option) \<Rightarrow> string list \<Rightarrow> 'j list option" where
  "loads_each loads [] = Some []"
| "loads_each loads (l # ls) =
     (case loads l of
        None \<Rightarrow> None
      | Some e \<Rightarrow> (case loads_each loads ls of None \<Rightarrow> None | Some es \<Rightarrow> Some (e # es)))"

definition recent_lines :: "int \<Rightarrow> string list \<Rightarrow> string list" where
  "recent_lines count lines =
     (if int (length lines) \<ge> count then slice_from (- count) lines else lines)"

definition get_recent_audit_entries ::
    "(string \<Rightarrow> 'j option) \<Rightarrow> audit_file \<Rightarrow> int \<Rightarrow> 'j list" where
  "get_recent_audit_entries loads file count =
     (case file of
        Missing \<Rightarrow> []
      | Unreadable \<Rightarrow> []
      | Lines lines \<Rightarrow>
          (case loads_each loads (recent_lines count lines) of
             None \<Rightarrow> []
           | Some entries \<Rightarrow> entries))"

text \<open>A parser given by a finite table: the listed texts parse to the listed values and
  every other text is rejected.\<close>

definition loads_table :: "(string \<times> pyval) list \<Rightarrow> string \<Rightarrow> pyval option" where
  "loads_table tbl s = map_of tbl s"

section \<open>Dictionaries\<close>

text \<open>
  A \<open>dict\<close> is an association list in insertion order: \<open>d[k] = v\<close> replaces the value
  of a key that is present, in place, and appends a new key; \<open>del d[k]\<close> raises
  \<open>KeyError\<close> (here \<open>None\<close>) when the key is absent.
\<close>

definition dict_get :: "('k \<times> 'v) list \<Rightarrow> 'k \<Rightarrow> 'v option" where
  "dict_get d k = map_of d k"

definition dict_has :: "('k \<times> 'v) list \<Rightarrow> 'k \<Rightarrow> bool" where
  "dict_has d k = (k \<in> set (map fst d))"

fun dict_set :: "('k \<times> 'v) list \<Rightarrow> 'k \<Rightarrow> 'v \<Rightarrow> ('k \<times> 'v) list" where
  "dict_set [] k v = [(k, v)]"
| "dict_set ((k', v') # d) k v = (if k' = k then (k, v) # d else (k', v') # dict_set d k v)"

definition dict_del :: "('k \<times> 'v) list \<Rightarrow> 'k \<Rightarrow> ('k \<times> 'v) list option" where
  "dict_del d k = (if dict_has d k then Some (filter (\<lambda>kv. fst kv \<noteq> k) d) else None)"

section \<open>Shared state\<close>

text \<open>
  The two module-level dictionaries: \<open>tracked_messages\<close>, from \<open>(chat_id, message_id)\<close>
  to the time the message was tracked, and \<open>user_sessions\<close>, from a user to the
  session identifier and the time of its last use. The audit log file is part of the
  state as well.
\<close>

record session =
  session_id :: pyval
  last_active :: datetime

record bot_state =
  tracked_messages :: "((int \<times> int) \<times> datetime) list"
  user_sessions :: "(int \<times> session) list"
  audit_log_file :: audit_file

text \<open>
  The configuration constants. \<open>session_expiry\<close> is what the expression
  \<open>timedelta(hours=MESSAGE_SESSION_EXPIRY)\<close> gives: the duration, or the exception it
  raises for a number of hours that is not a number or is too large for a \<open>timedelta\<close>.
\<close>

record config =
  ALLOWED_USER_ID :: int
  JOURNAL_SYNC_MODE :: sync_mode
  JOURNAL_SYNC_INTERVAL :: "int option"
  MESSAGE_SESSION :: bool
  session_expiry :: "exn + timedelta"

definition hours :: "int \<Rightarrow> timedelta" where
  "hours h = h * 3600000000"

definition MESSAGE_RETENTION_HOURS :: int where
  "MESSAGE_RETENTION_HOURS = 24"

section \<open>Sessions and message tracking\<close>

text \<open>
  \<open>get_active_session\<close>, with the clock reading \<open>now\<close> of its \<open>datetime.now()\<close>. The
  result is the exception raised or the value returned, and the state. The statements
  that can raise are the computation of the expiry time and the log line that slices
  the identifier.
\<close>

definition get_active_session ::
    "config \<Rightarrow> datetime \<Rightarrow> int \<Rightarrow> bot_state \<Rightarrow> (exn + pyval option) \<times> bot_state" where
  "get_active_session cfg now user_id s =
     (if \<not> MESSAGE_SESSION cfg then (Inr None, s)
      else
        (case dict_get (user_sessions s) user_id of
           None \<Rightarrow> (Inr None, s)
         | Some session \<Rightarrow>
             (case session_expiry cfg of
                Inl e \<Rightarrow> (Inl e, s)
              | Inr expiry \<Rightarrow>
                  (case datetime_add (last_active session) expiry of
                     Inl e \<Rightarrow> (Inl e, s)
                   | Inr expiry_time \<Rightarrow>
                       if now > expiry_time then
                         (case dict_del (user_sessions s) user_id of
                            None \<Rightarrow> (Inl (Exn KeyError ''user_id''), s)
                          | Some d \<Rightarrow> (Inr None, s\<lparr>user_sessions := d\<rparr>))
                       else
                         (case slice_to 8 (session_id session) of
                            Inl e \<Rightarrow> (Inl e, s)
                          | Inr _ \<Rightarrow> (Inr (Some (session_id session)), s))))))"

definition update_session :: "datetime \<Rightarrow> int \<Rightarrow> pyval \<Rightarrow> bot_state \<Rightarrow> bot_state" where
  "update_session now user_id sid s =
     s\<lparr>user_sessions :=
         dict_set (user_sessions s) user_id \<lparr>session_id = sid, last_active = now\<rparr>\<rparr>"

definition track_message :: "datetime \<Rightarrow> int \<Rightarrow> int \<Rightarrow> bot_state \<Rightarrow> bot_state" where
  "track_message now chat_id message_id s =
     s\<lparr>tracked_messages := dict_set (tracked_messages s) (chat_id, message_id) now\<rparr>"

section \<open>Retention sweep\<close>

text \<open>
  One iteration of the loop of \<open>delete_old_messages\<close>, run without interleaving of
  other tasks. \<open>deleter k key\<close> is what the \<open>k\<close>-th call of \<open>bot.delete_message\<close> of
  this iteration does when called for \<open>key\<close>: \<open>None\<close> when it returns, \<open>Some e\<close> when it
  raises \<open>e\<close>. The calls made are collected in order.
\<close>

definition messages_to_delete ::
    "datetime \<Rightarrow> ((int \<times> int) \<times> datetime) list \<Rightarrow> (int \<times> int) list" where
  "messages_to_delete cutoff_time tracked =
     map fst (filter (\<lambda>kv. snd kv < cutoff_time) tracked)"

fun delete_each ::
    "(nat \<Rightarrow> int \<times> int \<Rightarrow> exn option) \<Rightarrow> (int \<times> int) list \<Rightarrow>
     (int \<times> int) list \<times> ((int \<times> int) \<times> datetime) list \<Rightarrow>
     (int \<times> int) list \<times> ((int \<times> int) \<times> datetime) list" where
  "delete_each deleter [] (calls, tracked) = (calls, tracked)"
| "delete_each deleter (key # keys) (calls, tracked) =
     (let in_handler = (if dict_has tracked key
                        then (case dict_del tracked key of Some t \<Rightarrow> t | None \<Rightarrow> tracked)
                        else tracked);
          tracked' =
            (case deleter (length calls) key of
               None \<Rightarrow> (case dict_del tracked key of Some t \<Rightarrow> t | None \<Rightarrow> in_handler)
             | Some e \<Rightarrow> in_handler)
      in delete_each deleter keys (calls @ [key], tracked'))"

definition expired_users :: "datetime \<Rightarrow> (int \<times> session) list \<Rightarrow> int list" where
  "expired_users session_cutoff sessions =
     map fst (filter (\<lambda>us. last_active (snd us) < session_cutoff) sessions)"

text \<open>
  The clean-up loop \<open>for user_id in expired_users: del user_sessions[user_id]\<close>. A
  \<open>KeyError\<close> would end it and be caught by the outer handler of the iteration, the
  deletions made so far staying.
\<close>

fun del_each :: "'k list \<Rightarrow> ('k \<times> 'v) list \<Rightarrow> ('k \<times> 'v) list" where
  "del_each [] d = d"
| "del_each (k # ks) d = (case dict_del d k of None \<Rightarrow> d | Some d' \<Rightarrow> del_each ks d')"

text \<open>
  The sweep returns the \<open>delete_message\<close> calls it made and the new state. When the
  cutoff of the sessions cannot be computed, the exception is caught by the outer
  handler of the iteration and the sessions stay.
\<close>

definition sweep ::
    "config \<Rightarrow> (nat \<Rightarrow> int \<times> int \<Rightarrow> exn option) \<Rightarrow> datetime \<Rightarrow> bot_state \<Rightarrow>
     (int \<times> int) list \<times> bot_state" where
  "sweep cfg deleter current_time s =
     (let cutoff_time = current_time - hours MESSAGE_RETENTION_HOURS;
          (calls, tracked) =
             delete_each deleter (messages_to_delete cutoff_time (tracked_messages s))
               ([], tracked_messages s);
          s1 = s\<lparr>tracked_messages := tracked\<rparr>
      in if MESSAGE_SESSION cfg then
           (case session_expiry cfg of
              Inl e \<Rightarrow> (calls, s1)
            | Inr expiry \<Rightarrow>
                (case datetime_add current_time (- expiry) of
                   Inl e \<Rightarrow> (calls, s1)
                 | Inr session_cutoff \<Rightarrow>
                     (calls,
                      s1\<lparr>user_sessions :=
                           del_each (expired_users session_cutoff (user_sessions s1))
                             (user_sessions s1)\<rparr>)))
         else (calls, s1))"

text \<open>
  The loop itself never returns. \<open>delete_old_messages\<close> runs its first iterations,
  one for each pair of a clock reading and a behaviour of \<open>bot.delete_message\<close> given;
  between two iterations the task sleeps.
\<close>

fun delete_old_messages ::
    "config \<Rightarrow> (datetime \<times> (nat \<Rightarrow> int \<times> int \<Rightarrow> exn option)) list \<Rightarrow> bot_state \<Rightarrow>
     (int \<times> int) list \<times> bot_state" where
  "delete_old_messages cfg [] s = ([], s)"
| "delete_old_messages cfg ((t, deleter) # its) s =
     (let (calls, s1) = sweep cfg deleter t s;
          (calls', s2) = delete_old_messages cfg its s1
      in (calls @ calls', s2))"

section \<open>Repository synchronisation\<close>

text \<open>
  What a \<open>subprocess.run\<close> call does: it returns a result with an exit code and the
  captured output, or it raises (\<open>TimeoutExpired\<close> among others).
\<close>

datatype run_result = Completed int string string | Raised exn

text \<open>
  The texts the bot sends or shows. Their fixed parts are literals of the source; the
  constructors carry the parts that vary.
\<close>

datatype warning =
    ScriptWarning string
  | ScriptTimedOut
  | ScriptError string
  | GitPullWarning string
  | GitError string

datatype message_text =
    SyncingThinking
  | Thinking
  | Warning warning
  | Reply pyval
  | ErrorReport string

datatype log_warning = NoSessionId | ParseFailed | RawOutputWas string

text \<open>
  The observable actions of a run, in the order they happen: the external commands
  started, the Telegram calls made, the calls of the session functions, the audit
  entries written and the warnings logged by the JSON parsing step. (Other log output
  is not recorded.)
\<close>

datatype action =
    RunScript
  | RunPull
  | SendMessage int message_text
  | EditMessage int int message_text "string option"
  | RunClaude "string list"
  | GetActiveSession int
  | UpdateSession int pyval
  | AuditLog pyval
  | LogWarning log_warning

fun is_send :: "action \<Rightarrow> bool" where
  "is_send (SendMessage _ _) = True"
| "is_send _ = False"

text \<open>
  The environment of one run of \<open>sync_repo\<close>: whether the sync script exists and is
  executable, what running it and running \<open>git pull\<close> do, what the \<open>k\<close>-th call of
  \<open>bot.send_message\<close> of this run does (it raises, or returns a message with an
  identifier) and the clock reading when that message is tracked.
\<close>

record sync_env =
  script_present :: bool
  script_run :: run_result
  pull_run :: run_result
  send_message :: "nat \<Rightarrow> exn + int"
  track_time :: "nat \<Rightarrow> datetime"

text \<open>The arguments of \<open>sync_repo\<close>; \<open>context\<close> and \<open>chat_id\<close> may be \<open>None\<close>.\<close>

record sync_args =
  has_context :: bool
  chat :: "int option"
  silent :: bool

text \<open>The test \<open>context and chat_id and not silent\<close> of \<open>send_warning\<close>.\<close>

definition notify_enabled :: "sync_args \<Rightarrow> bool" where
  "notify_enabled args =
     (has_context args \<and> (case chat args of None \<Rightarrow> False | Some c \<Rightarrow> c \<noteq> 0) \<and> \<not> silent args)"

text \<open>\<open>sub in s\<close> on strings.\<close>

fun contains :: "string \<Rightarrow> string \<Rightarrow> bool" where
  "contains sub [] = (sub = [])"
| "contains sub (c # cs) = (take (length sub) (c # cs) = sub \<or> contains sub cs)"

text \<open>
  \<open>send_warning\<close>: \<open>Some e\<close> when \<open>send_message\<close> raises \<open>e\<close>, which \<open>send_warning\<close> does
  not handle.
\<close>

definition send_warning ::
    "sync_env \<Rightarrow> sync_args \<Rightarrow> warning \<Rightarrow> action list \<times> bot_state \<Rightarrow>
     exn option \<times> action list \<times> bot_state" where
  "send_warning env args msg st =
     (case st of (acts, s) \<Rightarrow>
        if notify_enabled args then
          (let chat_id = the (chat args);
               k = length (filter is_send acts);
               acts' = acts @ [SendMessage chat_id (Warning msg)]
           in case send_message env k of
                Inl e \<Rightarrow> (Some e, acts', s)
              | Inr message_id \<Rightarrow>
                  (None, acts', track_message (track_time env k) chat_id message_id s))
        else (None, acts, s))"

text \<open>
  The first part of \<open>sync_repo\<close>, the sync script. Its result is \<open>Inl e\<close> when an
  exception leaves \<open>sync_repo\<close>, \<open>Inr (Some b)\<close> when \<open>sync_repo\<close> returns \<open>b\<close> and
  \<open>Inr None\<close> when control goes on to the \<open>git pull\<close> fallback. An exception raised
  in the \<open>try\<close> block goes to the handler of its class; one raised in a handler leaves
  the function.
\<close>

definition script_phase ::
    "sync_env \<Rightarrow> sync_args \<Rightarrow> action list \<times> bot_state \<Rightarrow>
     (exn + bool option) \<times> action list \<times> bot_state" where
  "script_phase env args st =
     (if script_present env then
        (let st1 = (fst st @ [RunScript], snd st);
             body =
               (case script_run env of
                  Completed returncode out err \<Rightarrow>
                    if returncode = 0 then (Inr (Some True), st1)
                    else (case send_warning env args (ScriptWarning (take 200 (py_strip err))) st1 of
                            (None, st2) \<Rightarrow> (Inr None, st2)
                          | (Some e, st2) \<Rightarrow> (Inl e, st2))
                | Raised e \<Rightarrow> (Inl e, st1))
         in case body of
              (Inl e, st2) \<Rightarrow>
                (if class_of e = TimeoutExpired then
                   (case send_warning env args ScriptTimedOut st2 of
                      (None, st3) \<Rightarrow> (Inr None, st3)
                    | (Some e', st3) \<Rightarrow> (Inl e', st3))
                 else
                   (case send_warning env args (ScriptError (str_of e)) st2 of
                      (None, st3) \<Rightarrow> (Inr None, st3)
                    | (Some e', st3) \<Rightarrow> (Inl e', st3)))
            | (Inr r, st2) \<Rightarrow> (Inr r, st2))
      else (Inr None, st))"

text \<open>The second part, the \<open>git pull\<close> fallback.\<close>

definition pull_phase ::
    "sync_env \<Rightarrow> sync_args \<Rightarrow> action list \<times> bot_state \<Rightarrow>
     (exn + bool) \<times> action list \<times> bot_state" where
  "pull_phase env args st =
     (let st1 = (fst st @ [RunPull], snd st);
          body =
            (case pull_run env of
               Completed returncode out err \<Rightarrow>
                 if returncode \<noteq> 0 \<and> \<not> contains ''Already up to date'' out then
                   (case send_warning env args (GitPullWarning err) st1 of
                      (None, st2) \<Rightarrow> (Inr True, st2)
                    | (Some e, st2) \<Rightarrow> (Inl e, st2))
                 else (Inr True, st1)
             | Raised e \<Rightarrow> (Inl e, st1))
      in case body of
           (Inl e, st2) \<Rightarrow>
             (case send_warning env args (GitError (str_of e)) st2 of
                (None, st3) \<Rightarrow> (Inr False, st3)
              | (Some e', st3) \<Rightarrow> (Inl e', st3))
         | (Inr b, st2) \<Rightarrow> (Inr b, st2))"

definition sync_repo ::
    "sync_env \<Rightarrow> sync_args \<Rightarrow> bot_state \<Rightarrow> (exn + bool) \<times> action list \<times> bot_state" where
  "sync_repo env args s =
     (case script_phase env args ([], s) of
        (Inl e, st) \<Rightarrow> (Inl e, st)
      | (Inr (Some b), st) \<Rightarrow> (Inr b, st)
      | (Inr None, st) \<Rightarrow> pull_phase env args st)"

section \<open>Answering a query\<close>

text \<open>
  The parts of a Telegram update that \<open>handle_message\<close> reads: the user and the user
  name, the chat, the identifier of the message and its text (the handler is registered
  for text messages).
\<close>

record update =
  upd_user :: int
  upd_username :: "string option"
  upd_chat :: int
  upd_message :: int
  upd_text :: string

text \<open>
  Library functions, as parameters: \<open>json.loads\<close> (the value, or the exception it
  raises: \<open>JSONDecodeError\<close> for a text that is not JSON, and others, such as
  \<open>ValueError\<close> for a number with too many digits or \<open>RecursionError\<close> for a text nested
  too deep), \<open>json.dumps\<close>, \<open>bytes.decode\<close> (the text, or the \<open>UnicodeDecodeError\<close> it
  raises) and \<open>telegramify_markdown.markdownify\<close> (\<open>None\<close>: it raises).
\<close>

record library =
  json_loads :: "string \<Rightarrow> exn + pyval"
  json_dumps :: "pyval \<Rightarrow> string"
  bytes_decode :: "string \<Rightarrow> exn + string"
  markdownify :: "pyval \<Rightarrow> pyval option"

text \<open>The finished process of the \<open>claude\<close> command: captured bytes and exit code.\<close>

record process =
  proc_stdout :: string
  proc_stderr :: string
  proc_returncode :: int

text \<open>
  The environment of one run of \<open>handle_message\<close>: the clock readings of its calls of
  \<open>datetime.now()\<close>, the outcome of each Telegram call, the environments of the two
  calls of \<open>sync_repo\<close>, what starting \<open>claude\<close> with given arguments and waiting for it
  does, the rounded running times written to the audit log and, for the call of
  \<open>audit_log\<close> with a given event type, the timestamp and whether the file can be
  written.
\<close>

record query_env =
  now_track_user :: datetime
  status_send :: "exn + int"
  now_track_status :: datetime
  pre_sync :: sync_env
  now_lookup :: datetime
  claude_run :: "string list \<Rightarrow> exn + process"
  now_update :: datetime
  exec_time :: pyfloat
  edit_reply :: "exn option"
  post_sync :: sync_env
  exec_time_failed :: pyfloat
  edit_error :: "exn option"
  audit_timestamp :: "string \<Rightarrow> string"
  audit_writable :: "string \<Rightarrow> bool"

text \<open>
  \<open>audit_log\<close>: the entry is the fixed fields updated with the keyword arguments. A
  failure to write the file is logged and goes no further.
\<close>

definition append_line :: "audit_file \<Rightarrow> string \<Rightarrow> audit_file" where
  "append_line file line =
     (case file of
        Missing \<Rightarrow> Lines [line]
      | Unreadable \<Rightarrow> Unreadable
      | Lines ls \<Rightarrow> Lines (ls @ [line]))"

definition audit_entry ::
    "string \<Rightarrow> string \<Rightarrow> int \<Rightarrow> string option \<Rightarrow> (string \<times> pyval) list \<Rightarrow> pyval" where
  "audit_entry timestamp event_type user_id username kwargs =
     PyDict (foldl (\<lambda>d kv. dict_set d (fst kv) (snd kv))
               [(''timestamp'', PyStr timestamp), (''event'', PyStr event_type),
                (''user_id'', PyInt user_id),
                (''username'', case username of None \<Rightarrow> PyNone | Some u \<Rightarrow> PyStr u)]
               kwargs)"

definition audit_log ::
    "library \<Rightarrow> query_env \<Rightarrow> string \<Rightarrow> int \<Rightarrow> string option \<Rightarrow> (string \<times> pyval) list \<Rightarrow>
     action list \<times> bot_state \<Rightarrow> action list \<times> bot_state" where
  "audit_log lib env event_type user_id username kwargs st =
     (case st of (acts, s) \<Rightarrow>
        (let entry = audit_entry (audit_timestamp env event_type) event_type user_id username kwargs;
             file = (if audit_writable env event_type
                     then append_line (audit_log_file s) (json_dumps lib entry @ ''\<newline>'')
                     else audit_log_file s)
         in (acts @ [AuditLog entry], s\<lparr>audit_log_file := file\<rparr>)))"

text \<open>\<open>format_for_telegram\<close>: the converted text, or the text as it is when the
  conversion raises.\<close>

definition format_for_telegram :: "library \<Rightarrow> pyval \<Rightarrow> pyval \<times> string option" where
  "format_for_telegram lib txt =
     (case markdownify lib txt of
        Some converted \<Rightarrow> (converted, Some ''MarkdownV2'')
      | None \<Rightarrow> (txt, None))"

text \<open>
  Lines 461 to 477: the lookup of the session and the command line. The elements of
  the command are Python values; the session identifier is whatever was stored.
\<close>

definition new_session_cmd :: "config \<Rightarrow> string \<Rightarrow> pyval list" where
  "new_session_cmd cfg user_query =
     (if MESSAGE_SESSION cfg
      then [PyStr ''claude'', PyStr ''-p'', PyStr user_query, PyStr ''--output-format'',
            PyStr ''json'', PyStr ''--dangerously-skip-permissions'']
      else [PyStr ''claude'', PyStr ''-p'', PyStr user_query,
            PyStr ''--dangerously-skip-permissions''])"

definition resolve_command ::
    "config \<Rightarrow> datetime \<Rightarrow> int \<Rightarrow> string \<Rightarrow> action list \<times> bot_state \<Rightarrow>
     (exn + pyval list) \<times> action list \<times> bot_state" where
  "resolve_command cfg now user_id user_query st =
     (case st of (acts, s) \<Rightarrow>
        (case get_active_session cfg now user_id s of
           (Inl e, s1) \<Rightarrow> (Inl e, acts @ [GetActiveSession user_id], s1)
         | (Inr active_session, s1) \<Rightarrow>
             (let cmd =
                (if MESSAGE_SESSION cfg then
                   (case active_session of
                      None \<Rightarrow> Inr (new_session_cmd cfg user_query)
                    | Some tok \<Rightarrow>
                        if truthy tok then
                          (case slice_to 8 tok of
                             Inl e \<Rightarrow> Inl e
                           | Inr _ \<Rightarrow>
                               Inr [PyStr ''claude'', PyStr ''--resume'', tok, PyStr user_query,
                                    PyStr ''--output-format'', PyStr ''json'',
                                    PyStr ''--dangerously-skip-permissions''])
                        else Inr (new_session_cmd cfg user_query))
                 else Inr (new_session_cmd cfg user_query))
              in (cmd, acts @ [GetActiveSession user_id], s1))))"

text \<open>
  Starting the process: every argument has to be a \<open>str\<close>, or
  \<open>create_subprocess_exec\<close> raises \<open>TypeError\<close> for the first that is not. Then the output is decoded and
  stripped, and the error stream is decoded for the log when it is not empty.
\<close>

fun as_argv :: "pyval list \<Rightarrow> pyval + string list" where
  "as_argv [] = Inr []"
| "as_argv (PyStr a # xs) = (case as_argv xs of Inl x \<Rightarrow> Inl x | Inr as \<Rightarrow> Inr (a # as))"
| "as_argv (x # xs) = Inl x"

definition run_query ::
    "library \<Rightarrow> query_env \<Rightarrow> pyval list \<Rightarrow> action list \<times> bot_state \<Rightarrow>
     (exn + string \<times> process) \<times> action list \<times> bot_state" where
  "run_query lib env cmd st =
     (case st of (acts, s) \<Rightarrow>
        (case as_argv cmd of
           Inl x \<Rightarrow>
             (Inl (Exn TypeError
                     (''expected str, bytes or os.PathLike object, not '' @ type_name x)),
              acts, s)
         | Inr argv \<Rightarrow>
             (case claude_run env argv of
                Inl e \<Rightarrow> (Inl e, acts @ [RunClaude argv], s)
              | Inr p \<Rightarrow>
                  (case bytes_decode lib (proc_stdout p) of
                     Inl e \<Rightarrow> (Inl e, acts @ [RunClaude argv], s)
                   | Inr txt \<Rightarrow>
                       (case (if proc_stderr p \<noteq> [] then bytes_decode lib (proc_stderr p)
                              else Inr []) of
                          Inl e \<Rightarrow> (Inl e, acts @ [RunClaude argv], s)
                        | Inr _ \<Rightarrow> (Inr (py_strip txt, p), acts @ [RunClaude argv], s))))))"

text \<open>
  Lines 503 to 522: with sessions enabled the output is parsed as JSON. Only
  \<open>JSONDecodeError\<close> is handled here: another exception of \<open>json.loads\<close>, \<open>.get\<close> on a
  value that is not a dict and \<open>len\<close> of a result without a length (in the log line)
  raise to the handler of \<open>handle_message\<close>.
\<close>

definition parse_output ::
    "config \<Rightarrow> library \<Rightarrow> datetime \<Rightarrow> int \<Rightarrow> string \<Rightarrow> action list \<times> bot_state \<Rightarrow>
     (exn + pyval) \<times> action list \<times> bot_state" where
  "parse_output cfg lib now user_id raw_output st =
     (case st of (acts, s) \<Rightarrow>
        if MESSAGE_SESSION cfg then
          (case json_loads lib raw_output of
             Inl e \<Rightarrow>
               if class_of e = JSONDecodeError then
                 (Inr (PyStr raw_output),
                  acts @ [LogWarning ParseFailed, LogWarning (RawOutputWas (take 500 raw_output))],
                  s)
               else (Inl e, acts, s)
           | Inr result_data \<Rightarrow>
               (case result_data of
                  PyDict d \<Rightarrow>
                    (let sid = (case dict_get d ''session_id'' of None \<Rightarrow> PyNone | Some v \<Rightarrow> v);
                         output = (case dict_get d ''result'' of
                                     None \<Rightarrow> PyStr raw_output | Some v \<Rightarrow> v)
                     in case (if truthy output then py_len output else Inr 0) of
                          Inl e \<Rightarrow> (Inl e, acts, s)
                        | Inr _ \<Rightarrow>
                            if truthy sid
                            then (Inr output, acts @ [UpdateSession user_id sid],
                                  update_session now user_id sid s)
                            else (Inr output, acts @ [LogWarning NoSessionId], s))
                | _ \<Rightarrow>
                    (Inl (Exn AttributeError
                            (quoted (type_name result_data) @ '' object has no attribute ''
                             @ quoted ''get'')),
                     acts, s)))
        else (Inr (PyStr raw_output), acts, s))"

text \<open>
  Lines 524 to 529: an empty result is replaced by the error stream or a fixed text,
  and a result longer than 3900 is cut and marked.
\<close>

definition finish_output :: "library \<Rightarrow> process \<Rightarrow> pyval \<Rightarrow> exn + pyval" where
  "finish_output lib p output =
     (case (if \<not> truthy output then
              (case bytes_decode lib (proc_stderr p) of
                 Inl e \<Rightarrow> Inl e
               | Inr t \<Rightarrow>
                   Inr (PyStr (if py_strip t \<noteq> [] then py_strip t
                               else ''Empty response from Claude.'')))
            else Inr output) of
        Inl e \<Rightarrow> Inl e
      | Inr output1 \<Rightarrow>
          (case py_len output1 of
             Inl e \<Rightarrow> Inl e
           | Inr n \<Rightarrow>
               if n > 3900 then
                 (case output1 of
                    PyStr t \<Rightarrow> Inr (PyStr (take 3900 t @ ''\<newline>...(truncated)''))
                  | PyList xs \<Rightarrow>
                      Inl (Exn TypeError
                             (''can only concatenate list (not '' @ [CHR 0x22] @ ''str''
                              @ [CHR 0x22] @ '') to list''))
                  | _ \<Rightarrow> Inl (Exn TypeError (''unhashable type: '' @ quoted ''slice'')))
               else Inr output1))"

text \<open>
  Lines 533 to 552: the reply replaces the status message, the query is audited and,
  in the eager mode, the repository is synchronised again, silently.
\<close>

definition reply ::
    "config \<Rightarrow> library \<Rightarrow> query_env \<Rightarrow> update \<Rightarrow> int \<Rightarrow> process \<Rightarrow> pyval \<Rightarrow>
     action list \<times> bot_state \<Rightarrow> (exn + unit) \<times> action list \<times> bot_state" where
  "reply cfg lib env upd status_id p output st =
     (case st of (acts, s) \<Rightarrow>
        (let formatted = format_for_telegram lib output;
             acts1 = acts @ [EditMessage (upd_chat upd) status_id (Reply (fst formatted)) (snd formatted)]
         in case edit_reply env of
              Some e \<Rightarrow> (Inl e, acts1, s)
            | None \<Rightarrow>
                (case py_len output of
                   Inl e \<Rightarrow> (Inl e, acts1, s)
                 | Inr n \<Rightarrow>
                     (let st2 = audit_log lib env ''QUERY'' (upd_user upd) (upd_username upd)
                                  [(''query'', PyStr (upd_text upd)),
                                   (''query_length'', PyInt (int (length (upd_text upd)))),
                                   (''response_length'', PyInt (int n)),
                                   (''execution_time_sec'', PyFloat (exec_time env)),
                                   (''status'', PyStr ''success''),
                                   (''exit_code'', PyInt (proc_returncode p))]
                                  (acts1, s)
                      in if JOURNAL_SYNC_MODE cfg = Auto then
                           (case sync_repo (post_sync env)
                                   \<lparr>has_context = True, chat = Some (upd_chat upd), silent = True\<rparr>
                                   (snd st2) of
                              (Inl e, acts', s') \<Rightarrow> (Inl e, fst st2 @ acts', s')
                            | (Inr _, acts', s') \<Rightarrow> (Inr (), fst st2 @ acts', s'))
                         else (Inr (), st2)))))"

text \<open>The \<open>try\<close> block of \<open>handle_message\<close>.\<close>

definition answer ::
    "config \<Rightarrow> library \<Rightarrow> query_env \<Rightarrow> update \<Rightarrow> int \<Rightarrow> action list \<times> bot_state \<Rightarrow>
     (exn + unit) \<times> action list \<times> bot_state" where
  "answer cfg lib env upd status_id st =
     (case resolve_command cfg (now_lookup env) (upd_user upd) (upd_text upd) st of
        (Inl e, st1) \<Rightarrow> (Inl e, st1)
      | (Inr cmd, st1) \<Rightarrow>
          (case run_query lib env cmd st1 of
             (Inl e, st2) \<Rightarrow> (Inl e, st2)
           | (Inr (raw_output, p), st2) \<Rightarrow>
               (case parse_output cfg lib (now_update env) (upd_user upd) raw_output st2 of
                  (Inl e, st3) \<Rightarrow> (Inl e, st3)
                | (Inr output, st3) \<Rightarrow>
                    (case finish_output lib p output of
                       Inl e \<Rightarrow> (Inl e, st3)
                     | Inr output1 \<Rightarrow> reply cfg lib env upd status_id p output1 st3))))"

text \<open>The handler of the \<open>try\<close> block: the error is shown and audited.\<close>

definition on_error ::
    "library \<Rightarrow> query_env \<Rightarrow> update \<Rightarrow> int \<Rightarrow> exn \<Rightarrow> action list \<times> bot_state \<Rightarrow>
     exn option \<times> action list \<times> bot_state" where
  "on_error lib env upd status_id e st =
     (case st of (acts, s) \<Rightarrow>
        (let acts1 = acts @ [EditMessage (upd_chat upd) status_id (ErrorReport (str_of e)) None]
         in case edit_error env of
              Some e' \<Rightarrow> (Some e', acts1, s)
            | None \<Rightarrow>
                (None,
                 audit_log lib env ''ERROR'' (upd_user upd) (upd_username upd)
                   [(''query'', PyStr (upd_text upd)),
                    (''query_length'', PyInt (int (length (upd_text upd)))),
                    (''execution_time_sec'', PyFloat (exec_time_failed env)),
                    (''status'', PyStr ''error''),
                    (''error'', PyStr (str_of e))]
                   (acts1, s))))"

text \<open>
  \<open>handle_message\<close>. The result is the exception that leaves the handler, if any, the
  actions of the run and the new state.
\<close>

definition handle_message ::
    "config \<Rightarrow> library \<Rightarrow> query_env \<Rightarrow> update \<Rightarrow> bot_state \<Rightarrow>
     exn option \<times> action list \<times> bot_state" where
  "handle_message cfg lib env upd s =
     (if upd_user upd \<noteq> ALLOWED_USER_ID cfg then
        (None,
         audit_log lib env ''UNAUTHORIZED'' (upd_user upd) (upd_username upd)
           [(''action'', PyStr ''message''),
            (''query_preview'',
               if upd_text upd \<noteq> [] then PyStr (take 100 (upd_text upd)) else PyNone)]
           ([], s))
      else
        (let s1 = track_message (now_track_user env) (upd_chat upd) (upd_message upd) s;
             status_text = (if JOURNAL_SYNC_MODE cfg = Auto then SyncingThinking else Thinking);
             acts1 = [SendMessage (upd_chat upd) status_text]
         in case status_send env of
              Inl e \<Rightarrow> (Some e, acts1, s1)
            | Inr status_id \<Rightarrow>
                (let s2 = track_message (now_track_status env) (upd_chat upd) status_id s1;
                     synced =
                       (if JOURNAL_SYNC_MODE cfg = Auto then
                          (case sync_repo (pre_sync env)
                                  \<lparr>has_context = True, chat = Some (upd_chat upd), silent = False\<rparr>
                                  s2 of
                             (Inl e, acts', s') \<Rightarrow> (Some e, acts1 @ acts', s')
                           | (Inr _, acts', s') \<Rightarrow> (None, acts1 @ acts', s'))
                        else (None, acts1, s2))
                 in case synced of
                      (Some e, st3) \<Rightarrow> (Some e, st3)
                    | (None, st3) \<Rightarrow>
                        (case answer cfg lib env upd status_id st3 of
                           (Inr _, st4) \<Rightarrow> (None, st4)
                         | (Inl e, st4) \<Rightarrow> on_error lib env upd status_id e st4))))"

section \<open>Notions used in the properties\<close>

text \<open>The actions \<open>sync_repo\<close> can take, and a run of it in which every
  \<open>send_message\<close> returns.\<close>

fun is_sync :: "action \<Rightarrow> bool" where
  "is_sync RunScript = True"
| "is_sync RunPull = True"
| "is_sync (SendMessage _ (Warning _)) = True"
| "is_sync _ = False"

definition delivers :: "sync_env \<Rightarrow> bool" where
  "delivers env = (\<forall>k. \<exists>m. send_message env k = Inr m)"

text \<open>The value of a sequence of decimal digits, the first being the most significant.\<close>

definition decimal_value :: "string \<Rightarrow> int" where
  "decimal_value ds = foldl (\<lambda>a c. 10 * a + digit_val c) 0 ds"


section \<open>Example values\<close>

text \<open>
  Lines of an audit log and the entries they parse to, and a parser that knows these
  lines only. It agrees with \<open>json.loads\<close> on every line used below: the three entries
  are what \<open>json.loads\<close> returns for the three lines, and \<open>line_corrupt\<close>, a line cut
  short, is not JSON.
\<close>

definition line_startup :: string where
  \<open>line_startup = ''{"event": "STARTUP", "user_id": 0}\<newline>''\<close>

definition line_command :: string where
  \<open>line_command = ''{"event": "COMMAND", "user_id": 7}\<newline>''\<close>

definition line_query :: string where
  \<open>line_query = ''{"event": "QUERY", "user_id": 7}\<newline>''\<close>

definition line_corrupt :: string where
  \<open>line_corrupt = ''{"event": "QUE\<newline>''\<close>

definition entry_startup :: pyval where
  "entry_startup = PyDict [(''event'', PyStr ''STARTUP''), (''user_id'', PyInt 0)]"

definition entry_command :: pyval where
  "entry_command = PyDict [(''event'', PyStr ''COMMAND''), (''user_id'', PyInt 7)]"

definition entry_query :: pyval where
  "entry_query = PyDict [(''event'', PyStr ''QUERY''), (''user_id'', PyInt 7)]"

definition demo_loads :: "string \<Rightarrow> pyval option" where
  "demo_loads =
     loads_table [(line_startup, entry_startup), (line_command, entry_command),
                  (line_query, entry_query)]"

text \<open>
  A configuration with sessions enabled and an expiry of one hour, one with an expiry
  of a hundred million hours, and a state.
\<close>

definition demo_config :: config where
  "demo_config =
     \<lparr>ALLOWED_USER_ID = 7, JOURNAL_SYNC_MODE = Auto, JOURNAL_SYNC_INTERVAL = None,
      MESSAGE_SESSION = True, session_expiry = Inr (hours 1)\<rparr>"


definition demo_state :: bot_state where
  "demo_state =
     \<lparr>tracked_messages = [((5, 10), hours 1), ((5, 11), hours 30)],
      user_sessions = [(7, \<lparr>session_id = PyStr ''abc123'', last_active = hours 29\<rparr>)],
      audit_log_file = Missing\<rparr>"

text \<open>A \<open>delete_message\<close> that always raises.\<close>

definition failing_deleter :: "nat \<Rightarrow> int \<times> int \<Rightarrow> exn option" where
  "failing_deleter k key = Some (Exn OtherError ''Message to delete not found'')"

text \<open>
  Runs of \<open>sync_repo\<close> without a sync script in which \<open>git pull\<close> exits with code 1 and
  prints nothing to its standard output. In the first every \<open>send_message\<close> returns; in
  the second the first \<open>send_message\<close> raises and the later ones return.
\<close>

definition pull_fails_env :: sync_env where
  "pull_fails_env =
     \<lparr>script_present = False,
      script_run = Raised (Exn OtherError ''No such file''),
      pull_run = Completed 1 [] ''fatal: unable to access the remote'',
      send_message = (\<lambda>k. Inr (100 + int k)),
      track_time = (\<lambda>k. hours 30)\<rparr>"

definition pull_fails_send_raises_env :: sync_env where
  "pull_fails_send_raises_env =
     pull_fails_env
       \<lparr>send_message := (\<lambda>k. if k = 0 then Inl (Exn OtherError ''Timed out'') else Inr (100 + int k))\<rparr>"

definition chat_args :: sync_args where
  "chat_args = \<lparr>has_context = True, chat = Some 5, silent = False\<rparr>"

definition silent_args :: sync_args where
  "silent_args = \<lparr>has_context = True, chat = Some 5, silent = True\<rparr>"

text \<open>A run in which the sync script exists and exits with code 0.\<close>

definition script_ok_env :: sync_env where
  "script_ok_env =
     pull_fails_env\<lparr>script_present := True, script_run := Completed 0 ''synced'' []\<rparr>"

text \<open>
  A query and the run that answers it: the user is the allowed one, sessions are
  disabled, the sync script succeeds before and after, and \<open>claude\<close> prints the answer
  and exits with code 0. The library decodes ASCII bytes, its markdown conversion
  raises (the reply then goes out as plain text), and its \<open>json.dumps\<close> knows the audit
  entry of this run, for which it gives the text \<open>json.dumps\<close> gives.
\<close>

definition hike_query :: string where
  "hike_query = ''What did I write last Tuesday?''"

definition hike_answer :: string where
  "hike_answer = ''You wrote about the hike.''"

definition single_shot_config :: config where
  "single_shot_config = demo_config\<lparr>MESSAGE_SESSION := False\<rparr>"

definition hike_update :: update where
  "hike_update =
     \<lparr>upd_user = 7, upd_username = Some ''aj'', upd_chat = 5, upd_message = 40,
      upd_text = hike_query\<rparr>"

definition hike_entry :: pyval where
  "hike_entry =
     PyDict [(''timestamp'', PyStr ''2026-11-04T10:00:00.000250''), (''event'', PyStr ''QUERY''),
             (''user_id'', PyInt 7), (''username'', PyStr ''aj''),
             (''query'', PyStr ''What did I write last Tuesday?''), (''query_length'', PyInt 30),
             (''response_length'', PyInt 25), (''execution_time_sec'', PyFloat (Finite (5 / 2))),
             (''status'', PyStr ''success''), (''exit_code'', PyInt 0)]"

definition hike_line :: string where
  \<open>hike_line = ''{"timestamp": "2026-11-04T10:00:00.000250", "event": "QUERY", "user_id": 7, "username": "aj", "query": "What did I write last Tuesday?", "query_length": 30, "response_length": 25, "execution_time_sec": 2.5, "status": "success", "exit_code": 0}''\<close>

definition ascii_decode :: "string \<Rightarrow> exn + string" where
  "ascii_decode b =
     (if list_all (\<lambda>c. (of_char c :: nat) < 128) b then Inr b
      else Inl (Exn OtherError ''ordinal not in range(128)''))"

definition session_reply_empty_id :: string where
  \<open>session_reply_empty_id = ''{"session_id": "", "result": "Done."}''\<close>

definition session_reply_true_result :: string where
  \<open>session_reply_true_result = ''{"session_id": "abc123", "result": true}''\<close>

definition session_reply :: string where
  \<open>session_reply = ''{"session_id": "abc123", "result": "Done."}''\<close>

text \<open>
  The \<open>json.loads\<close> of the example library knows three answers of the tool and a
  number of 4301 digits, which is JSON but over the limit of the integer conversion;
  every other text it refuses as not being JSON.
\<close>

definition long_number :: string where
  "long_number = replicate 4301 (CHR ''1'')"

definition demo_json_loads :: "string \<Rightarrow> exn + pyval" where
  "demo_json_loads txt =
     (case loads_table
             [(session_reply,
                 PyDict [(''session_id'', PyStr ''abc123''), (''result'', PyStr ''Done.'')]),
              (session_reply_empty_id,
                 PyDict [(''session_id'', PyStr []), (''result'', PyStr ''Done.'')]),
              (session_reply_true_result,
                 PyDict [(''session_id'', PyStr ''abc123''), (''result'', PyBool True)])] txt of
        Some v \<Rightarrow> Inr v
      | None \<Rightarrow>
          if txt = long_number then
            Inl (Exn ValueError
                   (''Exceeds the limit (4300 digits) for integer string conversion: ''
                    @ ''value has 4301 digits; use sys.set_int_max_str_digits() ''
                    @ ''to increase the limit''))
          else Inl (Exn JSONDecodeError ''Expecting value: line 1 column 1 (char 0)''))"

definition demo_library :: library where
  "demo_library =
     \<lparr>json_loads = demo_json_loads,
      json_dumps = (\<lambda>v. if v = hike_entry then hike_line else []),
      bytes_decode = ascii_decode,
      markdownify = (\<lambda>v. None)\<rparr>"

definition hike_env :: query_env where
  "hike_env =
     \<lparr>now_track_user = hours 30,
      status_send = Inr 41,
      now_track_status = hours 30 + 1,
      pre_sync = script_ok_env,
      now_lookup = hours 30 + 2,
      claude_run = (\<lambda>argv. Inr \<lparr>proc_stdout = hike_answer, proc_stderr = [], proc_returncode = 0\<rparr>),
      now_update = hours 30 + 3,
      exec_time = Finite (5 / 2),
      edit_reply = None,
      post_sync = script_ok_env,
      exec_time_failed = Finite (5 / 2),
      edit_error = None,
      audit_timestamp = (\<lambda>event_type. ''2026-11-04T10:00:00.000250''),
      audit_writable = (\<lambda>event_type. True)\<rparr>"

section \<open>Auxiliary facts\<close>

lemmas demo_defs = demo_loads_def loads_table_def line_startup_def line_command_def
  line_query_def line_corrupt_def




lemma filter_absent: "\<not> dict_has t k \<Longrightarrow> filter (\<lambda>kv. fst kv \<noteq> k) t = t"
  by (induction t) (auto simp: dict_has_def)

lemma count_list_distinct: "distinct xs \<Longrightarrow> x \<in> set xs \<Longrightarrow> count_list xs x = 1"
  by (induction xs) auto

subsection \<open>Reading the audit log\<close>

lemma loads_each_Some:
  "\<forall>l \<in> set ls. loads l \<noteq> None \<Longrightarrow> loads_each loads ls = Some (map (the \<circ> loads) ls)"
  by (induction ls) auto

lemma loads_each_None:
  "l \<in> set ls \<Longrightarrow> loads l = None \<Longrightarrow> loads_each loads ls = None"
  by (induction ls) (auto split: option.splits)

lemma recent_lines_zero: "recent_lines 0 ls = ls"
  by (simp add: recent_lines_def slice_from_def)

lemma recent_lines_last:
  "1 \<le> k \<Longrightarrow> k \<le> int (length ls) \<Longrightarrow> recent_lines k ls = drop (length ls - nat k) ls"
  by (simp add: recent_lines_def slice_from_def Let_def nat_diff_distrib')

lemma recent_lines_all:
  "int (length ls) < k \<Longrightarrow> recent_lines k ls = ls"
  by (simp add: recent_lines_def)

text \<open>
  For a count of at least one and a log whose lines all parse, the result is the last
  \<open>n\<close> entries in the order of the file, and all of them when there are fewer than \<open>n\<close>.
\<close>

lemma recent_entries_positive:
  assumes "\<forall>l \<in> set ls. loads l \<noteq> None" and "1 \<le> n"
  shows "get_recent_audit_entries loads (Lines ls) n =
           map (the \<circ> loads) (drop (length ls - nat n) ls)"
proof (cases "n \<le> int (length ls)")
  case True
  have "\<forall>l \<in> set (drop (length ls - nat n) ls). loads l \<noteq> None"
    using assms(1) by (meson in_set_dropD)
  then show ?thesis
    by (simp add: get_recent_audit_entries_def recent_lines_last [OF assms(2) True] loads_each_Some)
next
  case False
  then have "length ls - nat n = 0" by simp
  with False assms(1) show ?thesis
    by (simp add: get_recent_audit_entries_def recent_lines_all loads_each_Some)
qed

lemma recent_entries_no_file:
  "get_recent_audit_entries loads Missing n = []"
  "get_recent_audit_entries loads (Lines []) n = []"
  by (simp_all add: get_recent_audit_entries_def recent_lines_def slice_from_def)

subsection \<open>The sync policy\<close>

lemma lower_char_code:
  assumes "lower_char c = d" and "of_char d = (m::nat)" and "97 \<le> m" and "m \<le> 122"
  shows "of_char c = m \<or> of_char c + 32 = m"
proof -
  let ?n = "of_char c :: nat"
  show ?thesis
  proof (cases "(65 \<le> ?n \<and> ?n \<le> 90) \<or> (192 \<le> ?n \<and> ?n \<le> 222 \<and> ?n \<noteq> 215)")
    case True
    with assms(1) have "char_of (?n + 32) = d" by (simp add: lower_char_def Let_def)
    then have "of_char (char_of (?n + 32) :: char) = m" using assms(2) by simp
    moreover from True have "?n + 32 < 256" by arith
    ultimately have "?n + 32 = m" by simp
    then show ?thesis by simp
  next
    case False
    with assms(1,2) show ?thesis by (simp add: lower_char_def Let_def)
  qed
qed

text \<open>A value that is \<open>auto\<close> up to letter case is not a numeral.\<close>

lemma py_lower_auto_not_int:
  assumes "py_lower raw = ''auto''"
  shows "py_int raw = None"
proof -
  from assms obtain a b c d where raw: "raw = [a, b, c, d]"
    and la: "lower_char a = CHR ''a''" and lo: "lower_char d = CHR ''o''"
    by (auto simp: py_lower_def map_eq_Cons_conv)
  have a: "of_char a = (97::nat) \<or> of_char a + 32 = (97::nat)"
    by (rule lower_char_code [OF la]) simp_all
  have d: "of_char d = (111::nat) \<or> of_char d + 32 = (111::nat)"
    by (rule lower_char_code [OF lo]) simp_all
  have na: "\<not> int_isspace a" using a by (auto simp: int_isspace_def)
  have nd: "\<not> int_isspace d" using d by (auto simp: int_isspace_def)
  have strip: "int_strip raw = raw" using na nd by (simp add: int_strip_def raw)
  have "a \<noteq> CHR ''-''" "a \<noteq> CHR ''+''" "\<not> is_digit a"
    using a by (auto simp: is_digit_def)
  then show ?thesis using strip by (simp add: py_int_def raw unsigned_int_def)
qed

lemma config_of_int:
  "py_int raw = Some n \<Longrightarrow> journal_sync_config (Some raw) = (Timer, Some n)"
  using py_lower_auto_not_int [of raw]
  by (auto simp: journal_sync_config_def getenv_def)

lemma config_of_no_int:
  "py_int raw = None \<Longrightarrow> journal_sync_config (Some raw) = (Auto, None)"
  by (simp add: journal_sync_config_def getenv_def)

text \<open>What \<open>int\<close> strips, and what the digits of a numeral give.\<close>

lemma digit_not_space: "is_digit c \<Longrightarrow> \<not> int_isspace c"
  by (auto simp: is_digit_def int_isspace_def)

lemma sign_not_space: "\<not> int_isspace (CHR ''-'')" "\<not> int_isspace (CHR ''+'')"
  by (simp_all add: int_isspace_def)

lemma sign_not_digit:
  "\<not> is_digit (CHR ''-'')" "\<not> is_digit (CHR ''+'')" "\<not> is_digit (CHR ''_'')"
  by (simp_all add: is_digit_def)

lemma dropWhile_all: "list_all P xs \<Longrightarrow> dropWhile P (xs @ ys) = dropWhile P ys"
  by (induction xs) auto

lemma dropWhile_hd: "ys \<noteq> [] \<Longrightarrow> \<not> P (hd ys) \<Longrightarrow> dropWhile P (ys @ zs) = ys @ zs"
  by (cases ys) auto

lemma int_strip_surrounded:
  assumes "list_all int_isspace pre" and "list_all int_isspace post"
    and "body \<noteq> []" and "\<not> int_isspace (hd body)" and "\<not> int_isspace (last body)"
  shows "int_strip (pre @ body @ post) = body"
proof -
  have "dropWhile int_isspace (pre @ body @ post) = body @ post"
    using assms by (simp add: dropWhile_all dropWhile_hd)
  moreover have "dropWhile int_isspace (rev post @ rev body) = rev body"
  proof -
    have "list_all int_isspace (rev post)" using assms(2) by (simp add: list_all_iff)
    then have "dropWhile int_isspace (rev post @ rev body) = dropWhile int_isspace (rev body)"
      using dropWhile_all [of int_isspace "rev post" "rev body"] by simp
    moreover have "dropWhile int_isspace (rev body @ []) = rev body @ []"
      using assms(3,5) by (intro dropWhile_hd) (simp_all add: hd_rev)
    ultimately show ?thesis by simp
  qed
  ultimately show ?thesis by (simp add: int_strip_def)
qed

lemma digits_of_digits:
  "list_all is_digit ds \<Longrightarrow>
     digits acc prev ds =
       (if ds = [] then (if prev then Some acc else None)
        else Some (foldl (\<lambda>a c. 10 * a + digit_val c) acc ds))"
  by (induction ds arbitrary: acc prev) auto

lemma digits_append:
  "list_all is_digit ds \<Longrightarrow>
     digits acc prev (ds @ rest) =
       (if ds = [] then digits acc prev rest
        else digits (foldl (\<lambda>a c. 10 * a + digit_val c) acc ds) True rest)"
  by (induction ds arbitrary: acc prev) auto

lemma filter_digits: "list_all is_digit ds \<Longrightarrow> filter is_digit ds = ds"
  by (induction ds) auto

lemma unsigned_int_digits:
  assumes "ds \<noteq> []" and "list_all is_digit ds"
  shows "unsigned_int ds =
           (if length ds \<le> INT_MAX_STR_DIGITS then Some (decimal_value ds) else None)"
proof -
  from assms obtain c cs where ds: "ds = c # cs" and c: "is_digit c" by (cases ds) auto
  have unfold: "unsigned_int ds =
      (if length (filter is_digit ds) \<le> INT_MAX_STR_DIGITS then digits 0 False ds else None)"
    unfolding ds using c by (simp add: unsigned_int_def)
  have "digits 0 False ds = Some (decimal_value ds)"
    using digits_of_digits [OF assms(2), of 0 False] assms(1) by (simp add: decimal_value_def)
  then show ?thesis
    by (simp only: unfold filter_digits [OF assms(2)])
qed

lemma unsigned_int_grouped:
  assumes "ds \<noteq> []" and "ds' \<noteq> []" and "list_all is_digit ds" and "list_all is_digit ds'"
    and "length ds + length ds' \<le> INT_MAX_STR_DIGITS"
  shows "unsigned_int (ds @ ''_'' @ ds') = Some (decimal_value (ds @ ds'))"
proof -
  from assms obtain c cs where ds: "ds = c # cs" and c: "is_digit c" by (cases ds) auto
  have count: "filter is_digit (ds @ ''_'' @ ds') = ds @ ds'"
    using assms(3,4) by (simp add: filter_digits sign_not_digit)
  have unfold: "unsigned_int (ds @ ''_'' @ ds') =
      (if length (filter is_digit (ds @ ''_'' @ ds')) \<le> INT_MAX_STR_DIGITS
       then digits 0 False (ds @ ''_'' @ ds') else None)"
    unfolding ds using c by (simp add: unsigned_int_def)
  have "digits 0 False (ds @ ''_'' @ ds')
          = digits (foldl (\<lambda>a c. 10 * a + digit_val c) 0 ds) True (''_'' @ ds')"
    using digits_append [OF assms(3), of 0 False "''_'' @ ds'"] assms(1) by simp
  also have "\<dots> = digits (foldl (\<lambda>a c. 10 * a + digit_val c) 0 ds) False ds'"
    by (simp add: sign_not_digit)
  also have "\<dots> = Some (foldl (\<lambda>a c. 10 * a + digit_val c) 0 (ds @ ds'))"
    using digits_of_digits [OF assms(4)] assms(2) by simp
  finally have "digits 0 False (ds @ ''_'' @ ds') = Some (decimal_value (ds @ ds'))"
    by (simp add: decimal_value_def)
  then show ?thesis
    using assms(5) by (simp only: unfold count length_append if_True)
qed

text \<open>\<open>int\<close> on a text that, without the surrounding whitespace, starts with a digit or
  with a sign.\<close>

lemma py_int_unsigned:
  "int_strip raw = body \<Longrightarrow> body \<noteq> [] \<Longrightarrow> is_digit (hd body) \<Longrightarrow>
     py_int raw = unsigned_int body"
  by (cases body) (auto simp: py_int_def sign_not_digit)

lemma py_int_signed:
  "int_strip raw = CHR ''-'' # body \<Longrightarrow> py_int raw = map_option uminus (unsigned_int body)"
  "int_strip raw = CHR ''+'' # body \<Longrightarrow> py_int raw = unsigned_int body"
  by (simp_all add: py_int_def)

text \<open>A text that \<open>int\<close> accepts is made of digits, underscores, a sign and whitespace.\<close>

lemma digits_chars:
  "digits acc prev s = Some n \<Longrightarrow> c \<in> set s \<Longrightarrow> is_digit c \<or> c = CHR ''_''"
  by (induction s arbitrary: acc prev) (auto split: if_splits)

lemma dropWhile_chars: "c \<in> set xs \<Longrightarrow> c \<in> set (dropWhile P xs) \<or> P c"
  by (induction xs) auto

lemma int_strip_chars: "c \<in> set raw \<Longrightarrow> c \<in> set (int_strip raw) \<or> int_isspace c"
proof -
  assume "c \<in> set raw"
  then have "c \<in> set (dropWhile int_isspace raw) \<or> int_isspace c"
    by (rule dropWhile_chars)
  moreover have "c \<in> set (dropWhile int_isspace raw) \<Longrightarrow>
                   c \<in> set (int_strip raw) \<or> int_isspace c"
    using dropWhile_chars [of c "rev (dropWhile int_isspace raw)" int_isspace]
    by (simp add: int_strip_def)
  ultimately show ?thesis by blast
qed

lemma unsigned_int_chars:
  "unsigned_int s = Some n \<Longrightarrow> c \<in> set s \<Longrightarrow> is_digit c \<or> c = CHR ''_''"
  by (auto simp: unsigned_int_def split: list.splits if_splits dest: digits_chars)

lemma py_int_chars:
  assumes "py_int raw = Some n" and "c \<in> set raw"
  shows "is_digit c \<or> c = CHR ''_'' \<or> c = CHR ''+'' \<or> c = CHR ''-'' \<or> int_isspace c"
proof -
  from int_strip_chars [OF assms(2)] show ?thesis
  proof
    assume "int_isspace c"
    then show ?thesis by simp
  next
    assume c: "c \<in> set (int_strip raw)"
    show ?thesis
    proof (cases "int_strip raw")
      case Nil
      with c show ?thesis by simp
    next
      case (Cons x xs)
      with assms(1) c show ?thesis
        by (auto simp: py_int_def split: if_splits dest: unsigned_int_chars)
    qed
  qed
qed

subsection \<open>The retention sweep\<close>

lemma delete_each_result:
  "delete_each deleter keys (calls, tracked)
     = (calls @ keys, filter (\<lambda>kv. fst kv \<notin> set keys) tracked)"
proof (induction keys arbitrary: calls tracked)
  case Nil
  then show ?case by simp
next
  case (Cons key keys)
  have step: "(case deleter (length calls) key of
               None \<Rightarrow> (case dict_del tracked key of Some t \<Rightarrow> t
                         | None \<Rightarrow> (if dict_has tracked key
                        then (case dict_del tracked key of Some t \<Rightarrow> t | None \<Rightarrow> tracked)
                        else tracked))
             | Some e \<Rightarrow> (if dict_has tracked key
                        then (case dict_del tracked key of Some t \<Rightarrow> t | None \<Rightarrow> tracked)
                        else tracked)) = filter (\<lambda>kv. fst kv \<noteq> key) tracked"
    by (cases "deleter (length calls) key") (auto simp: dict_del_def filter_absent)
  show ?case
    by (simp only: delete_each.simps Let_def step Cons.IH) (auto intro: filter_cong)
qed

lemma expired_key_iff:
  assumes "distinct (map fst tracked)" and "kv \<in> set tracked"
  shows "fst kv \<in> set (messages_to_delete cutoff tracked) \<longleftrightarrow> snd kv < cutoff"
proof
  assume "fst kv \<in> set (messages_to_delete cutoff tracked)"
  then obtain kv' where kv': "kv' \<in> set tracked" "snd kv' < cutoff" "fst kv' = fst kv"
    by (auto simp: messages_to_delete_def)
  with assms have "kv' = kv"
    by (metis eq_key_imp_eq_value prod.collapse)
  with kv' show "snd kv < cutoff" by simp
next
  assume "snd kv < cutoff"
  with assms(2) show "fst kv \<in> set (messages_to_delete cutoff tracked)"
    by (auto simp: messages_to_delete_def)
qed

lemma distinct_to_delete:
  "distinct (map fst tracked) \<Longrightarrow> distinct (messages_to_delete cutoff tracked)"
  by (simp add: messages_to_delete_def distinct_map_filter)

lemma sweep_tracked:
  "sweep cfg deleter now s = (calls, s') \<Longrightarrow>
     calls = messages_to_delete (now - hours MESSAGE_RETENTION_HOURS) (tracked_messages s) \<and>
     tracked_messages s' =
       filter (\<lambda>kv. fst kv \<notin> set (messages_to_delete (now - hours MESSAGE_RETENTION_HOURS) (tracked_messages s)))
         (tracked_messages s)"
  by (auto simp: sweep_def Let_def delete_each_result split: if_splits sum.splits)

section \<open>Properties\<close>

subsection \<open>Audit log\<close>

text \<open>
  C1. The claim: when the log holds a malformed line among well-formed ones,
  \<open>get_recent_audit_entries(n)\<close> skips it and still returns the parseable entries of the
  selected window. The code does not skip: the lines of the window are parsed inside
  one \<open>try\<close> block whose handler returns the empty list. What holds is: the result is
  the entries of the window, in order, when every line of the window parses, and the
  empty list as soon as one line of the window does not; lines outside the window are
  never parsed.
\<close>

theorem audit_window_all_or_nothing:
  "get_recent_audit_entries loads (Lines ls) n =
     (if \<forall>l \<in> set (recent_lines n ls). loads l \<noteq> None
      then map (the \<circ> loads) (recent_lines n ls)
      else [])"
  by (auto simp: get_recent_audit_entries_def loads_each_Some loads_each_None)

text \<open>
  With the corrupt line in second place of three, a window of one line is read and a
  window of two lines is lost.
\<close>

theorem audit_window_all_or_nothing_witness:
  "get_recent_audit_entries demo_loads (Lines [line_startup, line_corrupt, line_query]) 1
     = [entry_query]
   \<and> get_recent_audit_entries demo_loads (Lines [line_startup, line_corrupt, line_query]) 2
     = []"
  using audit_window_all_or_nothing [of demo_loads "[line_startup, line_corrupt, line_query]" 1]
        audit_window_all_or_nothing [of demo_loads "[line_startup, line_corrupt, line_query]" 2]
  by (simp add: recent_lines_def slice_from_def demo_defs)

text \<open>
  The claim fails on a log of three lines with a corrupt middle line, read with the
  default count of 20: the parseable entries of the window are the first and the
  third, and the function returns nothing.
\<close>

theorem audit_corrupt_line_loses_window:
  "get_recent_audit_entries demo_loads (Lines [line_startup, line_corrupt, line_query]) 20 = []
   \<and> List.map_filter demo_loads (recent_lines 20 [line_startup, line_corrupt, line_query])
       = [entry_startup, entry_query]"
  by (simp add: get_recent_audit_entries_def recent_lines_def demo_defs List.map_filter_simps)

text \<open>
  C6. The claim: on a log of well-formed entries, \<open>get_recent_audit_entries(n)\<close> returns
  up to \<open>n\<close> of the most recent entries, oldest first, for every count \<open>n\<close>. It holds for
  every count of at least one (\<open>recent_entries_positive\<close>) and for a log without
  entries (\<open>recent_entries_no_file\<close>). For the count 0, which \<open>/audit 0\<close> passes on, the
  slice \<open>lines[-0:]\<close> is the whole list: on a log of three entries the function returns
  three entries where the last zero were asked for.
\<close>

theorem audit_count_zero_returns_three:
  "get_recent_audit_entries demo_loads (Lines [line_startup, line_command, line_query]) 0
     = [entry_startup, entry_command, entry_query]"
  by (simp add: get_recent_audit_entries_def recent_lines_def slice_from_def demo_defs)

text \<open>
  C10. The claim: with the count 0 on a log that is not empty,
  \<open>get_recent_audit_entries\<close> returns every entry of the log, not an empty sequence.
  With the count 0 the slice \<open>lines[-0:]\<close> does select every line of the log, and the
  result is every entry when all the lines parse. But a log with a malformed line is
  not empty either, and for it the result is the empty list. What holds: the window is
  the whole list of lines; the result is every entry of the log, as many as it has
  lines, when every line parses, and the empty list when some line does not.
\<close>

theorem audit_count_zero_selects_whole_log:
  "recent_lines 0 ls = ls
   \<and> get_recent_audit_entries loads (Lines ls) 0 =
       (if \<forall>l \<in> set ls. loads l \<noteq> None then map (the \<circ> loads) ls else [])
   \<and> (ls \<noteq> [] \<and> (\<forall>l \<in> set ls. loads l \<noteq> None)
        \<longrightarrow> length (get_recent_audit_entries loads (Lines ls) 0) = length ls
          \<and> get_recent_audit_entries loads (Lines ls) 0 \<noteq> [])"
  by (auto simp: get_recent_audit_entries_def recent_lines_zero loads_each_Some loads_each_None)

theorem audit_count_zero_selects_whole_log_witness:
  "[line_startup, line_command] \<noteq> []
   \<and> demo_loads line_startup \<noteq> None \<and> demo_loads line_command \<noteq> None
   \<and> get_recent_audit_entries demo_loads (Lines [line_startup, line_command]) 0
       = [entry_startup, entry_command]
   \<and> demo_loads line_corrupt = None
   \<and> get_recent_audit_entries demo_loads (Lines [line_startup, line_corrupt]) 0 = []"
  using audit_count_zero_selects_whole_log [of "[line_startup, line_command]" demo_loads]
        audit_count_zero_selects_whole_log [of "[line_startup, line_corrupt]" demo_loads]
  by (simp add: demo_defs)

text \<open>
  The claim fails on a log of three lines of which the second is cut short: with the
  count 0 the function returns the empty list.
\<close>

theorem audit_count_zero_corrupt_line_empty:
  "[line_startup, line_corrupt, line_query] \<noteq> []
   \<and> recent_lines 0 [line_startup, line_corrupt, line_query]
       = [line_startup, line_corrupt, line_query]
   \<and> get_recent_audit_entries demo_loads (Lines [line_startup, line_corrupt, line_query]) 0 = []"
  by (simp add: get_recent_audit_entries_def recent_lines_def slice_from_def demo_defs)


subsection \<open>Sync policy\<close>

text \<open>
  C9. The value \<open>auto\<close> of the sync policy variable selects the eager mode, and so does
  an unset variable; any other value is read as an integer number of minutes and, when
  it is one, selects the timer mode with that interval; a value that is not an integer
  gives the eager mode and no interval. (The source compares the lower-cased value with
  \<open>auto\<close>; a value that differs from \<open>auto\<close> by letter case only is not an integer, so
  both readings agree.) Being read as an integer means: a numeral of at most 4300
  decimal digits, with or without a sign and surrounded by any whitespace, stands for
  its decimal value, as does one with a single underscore between two groups of
  digits; a numeral of more digits, and a text with a character that is neither a
  digit, an underscore, a sign nor whitespace, are not integers.
\<close>

theorem sync_policy_parsing:
  "journal_sync_config None = (Auto, None)
   \<and> journal_sync_config (Some ''auto'') = (Auto, None)
   \<and> (raw \<noteq> ''auto'' \<longrightarrow>
        journal_sync_config (Some raw) =
          (case py_int raw of Some n \<Rightarrow> (Timer, Some n) | None \<Rightarrow> (Auto, None)))
   \<and> (ds \<noteq> [] \<and> list_all is_digit ds \<and> length ds \<le> INT_MAX_STR_DIGITS
        \<and> list_all int_isspace pre \<and> list_all int_isspace post \<longrightarrow>
        journal_sync_config (Some (pre @ ds @ post)) = (Timer, Some (decimal_value ds))
        \<and> journal_sync_config (Some (pre @ ''+'' @ ds @ post)) = (Timer, Some (decimal_value ds))
        \<and> journal_sync_config (Some (pre @ ''-'' @ ds @ post))
            = (Timer, Some (- decimal_value ds)))
   \<and> (ds \<noteq> [] \<and> ds' \<noteq> [] \<and> list_all is_digit ds \<and> list_all is_digit ds'
        \<and> length ds + length ds' \<le> INT_MAX_STR_DIGITS \<longrightarrow>
        journal_sync_config (Some (ds @ ''_'' @ ds')) = (Timer, Some (decimal_value (ds @ ds'))))
   \<and> (list_all is_digit ds \<and> length ds > INT_MAX_STR_DIGITS \<longrightarrow>
        journal_sync_config (Some ds) = (Auto, None))
   \<and> ((\<exists>c \<in> set raw. \<not> is_digit c \<and> c \<noteq> CHR ''_'' \<and> c \<noteq> CHR ''+'' \<and> c \<noteq> CHR ''-''
                        \<and> \<not> int_isspace c) \<longrightarrow>
        journal_sync_config (Some raw) = (Auto, None))"
proof (intro conjI impI)
  show "journal_sync_config None = (Auto, None)"
    by (simp add: journal_sync_config_def getenv_def py_lower_def lower_char_def)
  show "journal_sync_config (Some ''auto'') = (Auto, None)"
    by (simp add: journal_sync_config_def getenv_def py_lower_def lower_char_def)
next
  assume "raw \<noteq> ''auto''"
  show "journal_sync_config (Some raw) =
          (case py_int raw of Some n \<Rightarrow> (Timer, Some n) | None \<Rightarrow> (Auto, None))"
    by (cases "py_int raw") (simp_all add: config_of_int config_of_no_int)
next
  assume a: "ds \<noteq> [] \<and> list_all is_digit ds \<and> length ds \<le> INT_MAX_STR_DIGITS
        \<and> list_all int_isspace pre \<and> list_all int_isspace post"
  then have ds: "ds \<noteq> []" "list_all is_digit ds" "length ds \<le> INT_MAX_STR_DIGITS"
    and sp: "list_all int_isspace pre" "list_all int_isspace post"
    by simp_all
  from ds(1,2) have first: "is_digit (hd ds)" and final: "is_digit (last ds)"
    by (simp_all add: list_all_iff)
  have u: "unsigned_int ds = Some (decimal_value ds)"
    using unsigned_int_digits [OF ds(1,2)] ds(3) by simp
  have plain: "int_strip (pre @ ds @ post) = ds"
    using sp ds(1) first final by (intro int_strip_surrounded) (simp_all add: digit_not_space)
  have plus: "int_strip (pre @ (''+'' @ ds) @ post) = ''+'' @ ds"
    using sp ds(1) final
    by (intro int_strip_surrounded) (simp_all add: digit_not_space sign_not_space)
  have minus: "int_strip (pre @ (''-'' @ ds) @ post) = ''-'' @ ds"
    using sp ds(1) final
    by (intro int_strip_surrounded) (simp_all add: digit_not_space sign_not_space)
  have "py_int (pre @ ds @ post) = Some (decimal_value ds)"
    using py_int_unsigned [OF plain ds(1) first] u by simp
  then show "journal_sync_config (Some (pre @ ds @ post)) = (Timer, Some (decimal_value ds))"
    by (rule config_of_int)
  have "py_int (pre @ ''+'' @ ds @ post) = Some (decimal_value ds)"
    using py_int_signed(2) [of "pre @ ''+'' @ ds @ post" ds] u plus by simp
  then show "journal_sync_config (Some (pre @ ''+'' @ ds @ post)) = (Timer, Some (decimal_value ds))"
    by (rule config_of_int)
  have "py_int (pre @ ''-'' @ ds @ post) = Some (- decimal_value ds)"
    using py_int_signed(1) [of "pre @ ''-'' @ ds @ post" ds] u minus by simp
  then show "journal_sync_config (Some (pre @ ''-'' @ ds @ post))
            = (Timer, Some (- decimal_value ds))"
    by (rule config_of_int)
next
  assume a: "ds \<noteq> [] \<and> ds' \<noteq> [] \<and> list_all is_digit ds \<and> list_all is_digit ds'
        \<and> length ds + length ds' \<le> INT_MAX_STR_DIGITS"
  then have u: "unsigned_int (ds @ ''_'' @ ds') = Some (decimal_value (ds @ ds'))"
    by (intro unsigned_int_grouped) simp_all
  from a have first: "is_digit (hd ds)" and final: "is_digit (last ds')"
    by (simp_all add: list_all_iff)
  have "int_strip ([] @ (ds @ ''_'' @ ds') @ []) = ds @ ''_'' @ ds'"
    using a first final by (intro int_strip_surrounded) (simp_all add: digit_not_space)
  then have strip: "int_strip (ds @ ''_'' @ ds') = ds @ ''_'' @ ds'" by simp
  have "hd (ds @ ''_'' @ ds') = hd ds" using a by simp
  then have "py_int (ds @ ''_'' @ ds') = Some (decimal_value (ds @ ds'))"
    using py_int_unsigned [OF strip] u first a by simp
  then show "journal_sync_config (Some (ds @ ''_'' @ ds')) = (Timer, Some (decimal_value (ds @ ds')))"
    by (rule config_of_int)
next
  assume a: "list_all is_digit ds \<and> length ds > INT_MAX_STR_DIGITS"
  then have ne: "ds \<noteq> []" by auto
  with a have first: "is_digit (hd ds)" and final: "is_digit (last ds)"
    by (simp_all add: list_all_iff)
  have u: "unsigned_int ds = None"
    using unsigned_int_digits [OF ne] a by simp
  have "int_strip ([] @ ds @ []) = ds"
    using ne first final by (intro int_strip_surrounded) (simp_all add: digit_not_space)
  then have strip: "int_strip ds = ds" by simp
  have "py_int ds = None"
    using py_int_unsigned [OF strip ne first] u by simp
  then show "journal_sync_config (Some ds) = (Auto, None)"
    by (rule config_of_no_int)
next
  assume "\<exists>c \<in> set raw. \<not> is_digit c \<and> c \<noteq> CHR ''_'' \<and> c \<noteq> CHR ''+'' \<and> c \<noteq> CHR ''-''
                        \<and> \<not> int_isspace c"
  then have "py_int raw = None"
    using py_int_chars [of raw] by (cases "py_int raw") auto
  then show "journal_sync_config (Some raw) = (Auto, None)"
    by (rule config_of_no_int)
qed

text \<open>
  The value \<open>15\<close> between a blank and a line end, with a sign or with a grouping
  underscore, gives the timer mode; \<open>soon\<close>, \<open>AUTO\<close>, a numeral after the separator
  U+001F and a numeral of 4301 digits give the eager mode.
\<close>

theorem sync_policy_parsing_witness:
  "journal_sync_config (Some ''auto'') = (Auto, None)
   \<and> journal_sync_config (Some ''15'') = (Timer, Some 15)
   \<and> journal_sync_config (Some '' 15\<newline>'') = (Timer, Some 15)
   \<and> journal_sync_config (Some ''-15'') = (Timer, Some (- 15))
   \<and> journal_sync_config (Some ''1_440'') = (Timer, Some 1440)
   \<and> journal_sync_config (Some ''soon'') = (Auto, None)
   \<and> journal_sync_config (Some ''AUTO'') = (Auto, None)
   \<and> journal_sync_config (Some [CHR 0x1F, CHR ''7'']) = (Auto, None)
   \<and> journal_sync_config (Some (replicate 4301 (CHR ''1''))) = (Auto, None)"
  using sync_policy_parsing [where raw = "''15''" and ds = "''15''" and ds' = "''440''"
          and pre = "'' ''" and post = "''\<newline>''"]
        sync_policy_parsing [where raw = "''soon''" and ds = "''1''" and ds' = "''440''"
          and pre = "[]" and post = "[]"]
        sync_policy_parsing [where raw = "''AUTO''" and ds = "replicate 4301 (CHR ''1'')"
          and ds' = "''440''" and pre = "[]" and post = "[]"]
        sync_policy_parsing [where raw = "[CHR 0x1F, CHR ''7'']" and ds = "''15''"
          and ds' = "''440''" and pre = "[]" and post = "[]"]
  by (simp add: is_digit_def int_isspace_def decimal_value_def digit_val_def
        INT_MAX_STR_DIGITS_def list_all_iff py_int_def int_strip_def unsigned_int_def)

subsection \<open>Sessions\<close>




subsection \<open>Retention sweep\<close>

text \<open>
  C5. In one retention sweep over a store with distinct keys (a dictionary), the calls
  of the deletion capability are exactly the keys whose timestamp is older than \<open>now\<close>
  minus the retention window, in the order of the store. So every such entry is passed
  to the deletion capability exactly once and is gone from tracking after the sweep,
  whether the capability returned or raised; an entry that is not older is not passed
  to it and stays tracked with its timestamp.
\<close>

theorem sweep_deletes_expired_once:
  assumes "distinct (map fst (tracked_messages s))"
  shows "case sweep cfg deleter now s of (calls, s') \<Rightarrow>
           calls = messages_to_delete (now - hours MESSAGE_RETENTION_HOURS) (tracked_messages s)
         \<and> tracked_messages s' =
             filter (\<lambda>kv. \<not> snd kv < now - hours MESSAGE_RETENTION_HOURS) (tracked_messages s)
         \<and> (\<forall>key postedAt. (key, postedAt) \<in> set (tracked_messages s) \<longrightarrow>
              (if postedAt < now - hours MESSAGE_RETENTION_HOURS
               then count_list calls key = 1 \<and> \<not> dict_has (tracked_messages s') key
               else count_list calls key = 0
                    \<and> dict_get (tracked_messages s') key = Some postedAt))"
proof -
  let ?cut = "now - hours MESSAGE_RETENTION_HOURS"
  let ?tr = "tracked_messages s"
  obtain calls s' where run: "sweep cfg deleter now s = (calls, s')"
    by (cases "sweep cfg deleter now s")
  from sweep_tracked [OF run]
  have calls: "calls = messages_to_delete ?cut ?tr"
    and tr': "tracked_messages s' = filter (\<lambda>kv. fst kv \<notin> set (messages_to_delete ?cut ?tr)) ?tr"
    by simp_all
  have "filter (\<lambda>kv. fst kv \<notin> set (messages_to_delete ?cut ?tr)) ?tr
        = filter (\<lambda>kv. \<not> snd kv < ?cut) ?tr"
    by (rule filter_cong) (auto simp: expired_key_iff [OF assms])
  with tr' have tr'': "tracked_messages s' = filter (\<lambda>kv. \<not> snd kv < ?cut) ?tr" by simp
  have each: "\<forall>key postedAt. (key, postedAt) \<in> set ?tr \<longrightarrow>
           (if postedAt < ?cut
            then count_list calls key = 1 \<and> \<not> dict_has (tracked_messages s') key
            else count_list calls key = 0 \<and> dict_get (tracked_messages s') key = Some postedAt)"
  proof (intro allI impI)
    fix key postedAt
    assume mem: "(key, postedAt) \<in> set ?tr"
    have iff: "key \<in> set calls \<longleftrightarrow> postedAt < ?cut"
      using expired_key_iff [OF assms mem, of ?cut] by (simp add: calls)
    have dc: "distinct calls" by (simp add: calls distinct_to_delete [OF assms])
    show "if postedAt < ?cut
            then count_list calls key = 1 \<and> \<not> dict_has (tracked_messages s') key
            else count_list calls key = 0 \<and> dict_get (tracked_messages s') key = Some postedAt"
    proof (cases "postedAt < ?cut")
      case True
      with iff have "key \<in> set calls" by simp
      with dc have c1: "count_list calls key = 1" by (simp add: count_list_distinct)
      have "\<not> dict_has (tracked_messages s') key"
        using \<open>key \<in> set calls\<close> by (auto simp: tr' dict_has_def calls)
      with c1 True show ?thesis by simp
    next
      case False
      with iff have "key \<notin> set calls" by simp
      then have c0: "count_list calls key = 0" by (simp add: count_list_0_iff)
      have "distinct (map fst (tracked_messages s'))"
        using assms by (simp add: tr'' distinct_map_filter)
      moreover have "(key, postedAt) \<in> set (tracked_messages s')"
        using mem False by (simp add: tr'')
      ultimately have "dict_get (tracked_messages s') key = Some postedAt"
        by (simp add: dict_get_def)
      with c0 False show ?thesis by simp
    qed
  qed
  show ?thesis unfolding run prod.case by (intro conjI calls tr'' each)
qed

text \<open>
  At hour 30 the message tracked at hour 1 is older than 24 hours and the one tracked
  at hour 30 is not. With a deletion capability that raises, the sweep calls it once,
  for the old message, and drops that message from tracking.
\<close>

theorem sweep_deletes_expired_once_witness:
  "distinct (map fst (tracked_messages demo_state))
   \<and> fst (sweep demo_config failing_deleter (hours 30) demo_state) = [(5, 10)]
   \<and> tracked_messages (snd (sweep demo_config failing_deleter (hours 30) demo_state))
       = [((5, 11), hours 30)]"
  using sweep_deletes_expired_once [where s = demo_state and cfg = demo_config
          and deleter = failing_deleter and now = "hours 30"]
  by (simp add: demo_state_def demo_config_def hours_def MESSAGE_RETENTION_HOURS_def
        messages_to_delete_def split: prod.splits)

text \<open>
  Over any number of further iterations of the loop the entry is not passed to the
  deletion capability again: an entry that is old at the first iteration is deleted
  once in all.
\<close>

lemma sweep_keys:
  assumes "sweep cfg deleter now s = (calls, s')"
  shows "set calls \<subseteq> fst ` set (tracked_messages s)"
    and "fst ` set (tracked_messages s') \<subseteq> fst ` set (tracked_messages s)"
    and "distinct (map fst (tracked_messages s)) \<Longrightarrow> distinct (map fst (tracked_messages s'))"
  using sweep_tracked [OF assms]
  by (auto simp: messages_to_delete_def distinct_map_filter)

lemma untracked_never_deleted:
  "key \<notin> fst ` set (tracked_messages s) \<Longrightarrow> key \<notin> set (fst (delete_old_messages cfg its s))"
proof (induction its arbitrary: s)
  case Nil
  then show ?case by simp
next
  case (Cons it its)
  obtain t deleter where it: "it = (t, deleter)" by (cases it)
  obtain calls s1 where sw: "sweep cfg deleter t s = (calls, s1)"
    by (cases "sweep cfg deleter t s")
  from sweep_keys(1,2) [OF sw] Cons.prems
  have "key \<notin> set calls" and "key \<notin> fst ` set (tracked_messages s1)" by auto
  with Cons.IH [of s1] show ?case
    by (auto simp: it sw split: prod.splits)
qed

lemma expired_message_deleted_once_in_all:
  assumes dist: "distinct (map fst (tracked_messages s))"
    and mem: "(key, postedAt) \<in> set (tracked_messages s)"
    and old: "postedAt < t - hours MESSAGE_RETENTION_HOURS"
  shows "count_list (fst (delete_old_messages cfg ((t, deleter) # its) s)) key = 1"
proof -
  obtain calls s1 where sw: "sweep cfg deleter t s = (calls, s1)"
    by (cases "sweep cfg deleter t s")
  from sweep_tracked [OF sw]
  have calls: "calls = messages_to_delete (t - hours MESSAGE_RETENTION_HOURS) (tracked_messages s)"
    and tr: "tracked_messages s1 =
       filter (\<lambda>kv. fst kv \<notin> set (messages_to_delete (t - hours MESSAGE_RETENTION_HOURS)
                 (tracked_messages s))) (tracked_messages s)"
    by simp_all
  have in_calls: "key \<in> set calls"
    using expired_key_iff [OF dist mem] old by (simp add: calls)
  have "distinct calls" by (simp add: calls distinct_to_delete [OF dist])
  with in_calls have one: "count_list calls key = 1" by (simp add: count_list_distinct)
  have "key \<notin> fst ` set (tracked_messages s1)"
    using in_calls by (auto simp: tr calls)
  then have "key \<notin> set (fst (delete_old_messages cfg its s1))"
    by (rule untracked_never_deleted)
  then have "count_list (fst (delete_old_messages cfg its s1)) key = 0" by simp
  with one show ?thesis by (auto simp: sw split: prod.splits)
qed

subsection \<open>Repository synchronisation\<close>

lemma script_absent_falls_through:
  "\<not> script_present env \<Longrightarrow> script_phase env args st = (Inr None, st)"
  by (simp add: script_phase_def)

text \<open>
  The fallback from the state in which it starts, when the message it sends, if any, is
  delivered.
\<close>

lemma pull_phase_delivered:
  assumes "notify_enabled args \<longrightarrow> send_message env (length (filter is_send acts0)) = Inr m"
  shows "pull_phase env args (acts0, s0) =
     (case pull_run env of
        Completed returncode out err \<Rightarrow>
          if returncode \<noteq> 0 \<and> \<not> contains ''Already up to date'' out \<and> notify_enabled args
          then (Inr True,
                acts0 @ [RunPull, SendMessage (the (chat args)) (Warning (GitPullWarning err))],
                track_message (track_time env (length (filter is_send acts0))) (the (chat args)) m s0)
          else (Inr True, acts0 @ [RunPull], s0)
      | Raised e \<Rightarrow>
          if notify_enabled args
          then (Inr False,
                acts0 @ [RunPull, SendMessage (the (chat args)) (Warning (GitError (str_of e)))],
                track_message (track_time env (length (filter is_send acts0))) (the (chat args)) m s0)
          else (Inr False, acts0 @ [RunPull], s0))"
proof (cases "pull_run env")
  case (Completed returncode out err)
  with assms show ?thesis
    by (simp add: pull_phase_def send_warning_def Let_def)
next
  case (Raised e)
  with assms show ?thesis
    by (simp add: pull_phase_def send_warning_def Let_def)
qed

text \<open>
  C2. The claim: whenever the fallback pull is executed and does not raise,
  \<open>sync_repo\<close> returns true; a warning is surfaced through notify exactly when the exit
  code is not zero and the output lacks the marker; and when the pull raises, the error
  is surfaced and \<open>sync_repo\<close> returns false. In the code the warning is sent inside
  the \<open>try\<close> block of the pull and only when \<open>send_warning\<close> has a context, a chat and
  is not silenced. What holds: when the run reaches the pull and the warning it sends,
  if any, is delivered, \<open>sync_repo\<close> returns true exactly when the pull returned
  (whatever its exit code) and false when it raised; it sends one warning after a pull
  that returned exactly when notify is enabled, the exit code is not zero and the
  output lacks \<open>Already up to date\<close>, and one error message after a pull that raised
  exactly when notify is enabled; the message sent is tracked.
\<close>

theorem pull_fallback_outcome:
  assumes "script_phase env args ([], s) = (Inr None, (acts0, s0))"
    and "notify_enabled args \<longrightarrow> send_message env (length (filter is_send acts0)) = Inr m"
  shows "sync_repo env args s =
     (case pull_run env of
        Completed returncode out err \<Rightarrow>
          if returncode \<noteq> 0 \<and> \<not> contains ''Already up to date'' out \<and> notify_enabled args
          then (Inr True,
                acts0 @ [RunPull, SendMessage (the (chat args)) (Warning (GitPullWarning err))],
                track_message (track_time env (length (filter is_send acts0))) (the (chat args)) m s0)
          else (Inr True, acts0 @ [RunPull], s0)
      | Raised e \<Rightarrow>
          if notify_enabled args
          then (Inr False,
                acts0 @ [RunPull, SendMessage (the (chat args)) (Warning (GitError (str_of e)))],
                track_message (track_time env (length (filter is_send acts0))) (the (chat args)) m s0)
          else (Inr False, acts0 @ [RunPull], s0))"
  using assms(1) pull_phase_delivered [OF assms(2)] by (simp add: sync_repo_def)

theorem pull_fallback_outcome_witness:
  "script_phase pull_fails_env chat_args ([], demo_state) = (Inr None, ([], demo_state))
   \<and> notify_enabled chat_args
   \<and> send_message pull_fails_env 0 = Inr 100
   \<and> sync_repo pull_fails_env chat_args demo_state =
       (Inr True,
        [RunPull, SendMessage 5 (Warning (GitPullWarning ''fatal: unable to access the remote''))],
        track_message (hours 30) 5 100 demo_state)"
  using pull_fallback_outcome [where env = pull_fails_env and args = chat_args
          and s = demo_state and ?acts0.0 = "[]" and ?s0.0 = demo_state and m = 100]
  by (simp add: pull_fails_env_def chat_args_def script_phase_def notify_enabled_def)

text \<open>
  The claim fails in two runs in which the pull returns with exit code 1 and an empty
  output. Called silently, as after a query and from the timer, \<open>sync_repo\<close> sends no
  warning. And when the delivery of the warning raises, the exception is caught by the
  handler of the pull, which sends the error message and returns false.
\<close>

theorem pull_returned_but_sync_false:
  "pull_run pull_fails_env = Completed 1 [] ''fatal: unable to access the remote''
   \<and> sync_repo pull_fails_env silent_args demo_state = (Inr True, [RunPull], demo_state)
   \<and> pull_run pull_fails_send_raises_env
       = Completed 1 [] ''fatal: unable to access the remote''
   \<and> sync_repo pull_fails_send_raises_env chat_args demo_state =
       (Inr False,
        [RunPull, SendMessage 5 (Warning (GitPullWarning ''fatal: unable to access the remote'')),
         SendMessage 5 (Warning (GitError ''Timed out''))],
        track_message (hours 30) 5 101 demo_state)"
  by (simp add: pull_fails_send_raises_env_def pull_fails_env_def chat_args_def silent_args_def
        sync_repo_def script_phase_def pull_phase_def send_warning_def notify_enabled_def Let_def)

text \<open>
  C3. The claim: when the sync script exists, is executable and exits with code 0,
  \<open>sync_repo\<close> returns true and the pull is never invoked; when the script is absent
  or not executable, the pull is invoked and its outcome alone determines the boolean
  returned. The first half holds as stated. The second half holds when the warning sent
  after the pull, if any, is delivered: then the script is not run, the pull is run,
  and the result is true when the pull returned and false when it raised.
\<close>

theorem script_success_or_fallback:
  "(script_present env \<and> script_run env = Completed 0 out err
      \<longrightarrow> sync_repo env args s = (Inr True, [RunScript], s))
   \<and> (\<not> script_present env \<and> (notify_enabled args \<longrightarrow> send_message env 0 = Inr m)
      \<longrightarrow> fst (sync_repo env args s)
            = Inr (case pull_run env of Completed _ _ _ \<Rightarrow> True | Raised _ \<Rightarrow> False)
          \<and> hd (fst (snd (sync_repo env args s))) = RunPull
          \<and> RunScript \<notin> set (fst (snd (sync_repo env args s))))"
proof (intro conjI impI)
  assume "script_present env \<and> script_run env = Completed 0 out err"
  then show "sync_repo env args s = (Inr True, [RunScript], s)"
    by (simp add: sync_repo_def script_phase_def)
next
  assume a: "\<not> script_present env \<and> (notify_enabled args \<longrightarrow> send_message env 0 = Inr m)"
  then have fall: "script_phase env args ([], s) = (Inr None, ([], s))"
    by (simp add: script_absent_falls_through)
  from a have deliv: "notify_enabled args \<longrightarrow> send_message env (length (filter is_send [])) = Inr m"
    by simp
  have run: "sync_repo env args s = pull_phase env args ([], s)"
    using fall by (simp add: sync_repo_def)
  note out = pull_phase_delivered [OF deliv, of s]
  show "fst (sync_repo env args s)
            = Inr (case pull_run env of Completed _ _ _ \<Rightarrow> True | Raised _ \<Rightarrow> False)"
    by (simp add: run out split: run_result.splits)
  show "hd (fst (snd (sync_repo env args s))) = RunPull"
    by (simp add: run out split: run_result.splits)
  show "RunScript \<notin> set (fst (snd (sync_repo env args s)))"
    by (simp add: run out split: run_result.splits)
qed

theorem script_success_or_fallback_witness:
  "script_present script_ok_env \<and> script_run script_ok_env = Completed 0 ''synced'' []
   \<and> sync_repo script_ok_env chat_args demo_state = (Inr True, [RunScript], demo_state)
   \<and> \<not> script_present pull_fails_env \<and> send_message pull_fails_env 0 = Inr 100
   \<and> fst (sync_repo pull_fails_env chat_args demo_state) = Inr True
   \<and> hd (fst (snd (sync_repo pull_fails_env chat_args demo_state))) = RunPull"
  using script_success_or_fallback [where env = script_ok_env and args = chat_args
          and s = demo_state and out = "''synced''" and err = "[]" and m = 100]
        script_success_or_fallback [where env = pull_fails_env and args = chat_args
          and s = demo_state and out = "''synced''" and err = "[]" and m = 100]
  by (simp add: script_ok_env_def pull_fails_env_def)

text \<open>
  The second half of the claim fails: two runs without a sync script and with the same
  outcome of the pull (exit code 1) return true when the warning is delivered and
  false when its delivery raises.
\<close>

theorem same_pull_different_result:
  "\<not> script_present pull_fails_env \<and> \<not> script_present pull_fails_send_raises_env
   \<and> pull_run pull_fails_env = pull_run pull_fails_send_raises_env
   \<and> fst (sync_repo pull_fails_env chat_args demo_state) = Inr True
   \<and> fst (sync_repo pull_fails_send_raises_env chat_args demo_state) = Inr False"
  by (simp add: pull_fails_send_raises_env_def pull_fails_env_def chat_args_def sync_repo_def
        script_phase_def pull_phase_def send_warning_def notify_enabled_def Let_def)

subsection \<open>Facts about \<open>sync_repo\<close> used for the query pipeline\<close>

text \<open>
  When every message is delivered, or none is sent, \<open>sync_repo\<close> returns a boolean,
  takes sync actions only, and leaves the sessions and the audit file as they are.
\<close>

lemma send_warning_ok:
  assumes "notify_enabled args \<longrightarrow> delivers env"
  shows "\<exists>new s'. send_warning env args w (acts, s) = (None, acts @ new, s')
           \<and> list_all is_sync new \<and> user_sessions s' = user_sessions s
           \<and> audit_log_file s' = audit_log_file s"
proof (cases "notify_enabled args")
  case True
  with assms obtain m where "send_message env (length (filter is_send acts)) = Inr m"
    by (auto simp: delivers_def)
  with True show ?thesis
    by (simp add: send_warning_def Let_def track_message_def)
next
  case False
  then show ?thesis by (simp add: send_warning_def)
qed

lemma script_phase_ok:
  assumes "notify_enabled args \<longrightarrow> delivers env"
  shows "\<exists>r new s'. script_phase env args ([], s) = (Inr r, new, s')
           \<and> list_all is_sync new \<and> user_sessions s' = user_sessions s
           \<and> audit_log_file s' = audit_log_file s"
proof (cases "script_present env")
  case False
  then show ?thesis by (simp add: script_phase_def)
next
  case True
  note sw = send_warning_ok [OF assms, of _ "[RunScript]" s]
  show ?thesis
  proof (cases "script_run env")
    case (Completed returncode out err)
    show ?thesis
    proof (cases "returncode = 0")
      case True
      with \<open>script_present env\<close> Completed show ?thesis by (simp add: script_phase_def)
    next
      case False
      from sw [of "ScriptWarning (take 200 (py_strip err))"] obtain new s'
        where "send_warning env args (ScriptWarning (take 200 (py_strip err))) ([RunScript], s)
                 = (None, [RunScript] @ new, s')"
          and "list_all is_sync new" "user_sessions s' = user_sessions s"
          "audit_log_file s' = audit_log_file s"
        by blast
      with False \<open>script_present env\<close> Completed show ?thesis
        by (simp add: script_phase_def)
    qed
  next
    case (Raised e)
    show ?thesis
    proof (cases "class_of e = TimeoutExpired")
      case True
      from sw [of ScriptTimedOut] obtain new s'
        where "send_warning env args ScriptTimedOut ([RunScript], s) = (None, [RunScript] @ new, s')"
          and "list_all is_sync new" "user_sessions s' = user_sessions s"
          "audit_log_file s' = audit_log_file s"
        by blast
      with True \<open>script_present env\<close> Raised show ?thesis
        by (simp add: script_phase_def)
    next
      case False
      from sw [of "ScriptError (str_of e)"] obtain new s'
        where "send_warning env args (ScriptError (str_of e)) ([RunScript], s)
                 = (None, [RunScript] @ new, s')"
          and "list_all is_sync new" "user_sessions s' = user_sessions s"
          "audit_log_file s' = audit_log_file s"
        by blast
      with False \<open>script_present env\<close> Raised show ?thesis
        by (simp add: script_phase_def)
    qed
  qed
qed

lemma pull_phase_ok:
  assumes "notify_enabled args \<longrightarrow> delivers env"
  shows "\<exists>b new s'. pull_phase env args (acts, s) = (Inr b, acts @ new, s')
           \<and> list_all is_sync new \<and> user_sessions s' = user_sessions s
           \<and> audit_log_file s' = audit_log_file s"
proof -
  note sw = send_warning_ok [OF assms, of _ "acts @ [RunPull]" s]
  show ?thesis
  proof (cases "pull_run env")
    case (Completed returncode out err)
    show ?thesis
    proof (cases "returncode \<noteq> 0 \<and> \<not> contains ''Already up to date'' out")
      case True
      from sw [of "GitPullWarning err"] obtain new s'
        where "send_warning env args (GitPullWarning err) (acts @ [RunPull], s)
                 = (None, (acts @ [RunPull]) @ new, s')"
          and "list_all is_sync new" "user_sessions s' = user_sessions s"
          "audit_log_file s' = audit_log_file s"
        by blast
      with True Completed show ?thesis by (auto simp: pull_phase_def)
    next
      case False
      with Completed show ?thesis by (auto simp: pull_phase_def)
    qed
  next
    case (Raised e)
    from sw [of "GitError (str_of e)"] obtain new s'
      where "send_warning env args (GitError (str_of e)) (acts @ [RunPull], s)
               = (None, (acts @ [RunPull]) @ new, s')"
        and "list_all is_sync new" "user_sessions s' = user_sessions s"
        "audit_log_file s' = audit_log_file s"
      by blast
    with Raised show ?thesis by (auto simp: pull_phase_def)
  qed
qed

lemma sync_repo_ok:
  assumes "notify_enabled args \<longrightarrow> delivers env"
  shows "\<exists>b new s'. sync_repo env args s = (Inr b, new, s')
           \<and> list_all is_sync new \<and> user_sessions s' = user_sessions s
           \<and> audit_log_file s' = audit_log_file s"
proof -
  from script_phase_ok [OF assms, of s] obtain r new s1
    where sp: "script_phase env args ([], s) = (Inr r, new, s1)"
      and inv: "list_all is_sync new" "user_sessions s1 = user_sessions s"
        "audit_log_file s1 = audit_log_file s"
    by blast
  show ?thesis
  proof (cases r)
    case (Some b)
    with sp inv show ?thesis by (simp add: sync_repo_def)
  next
    case None
    from pull_phase_ok [OF assms, of new s1] obtain b new' s'
      where "pull_phase env args (new, s1) = (Inr b, new @ new', s')"
        and "list_all is_sync new'" "user_sessions s' = user_sessions s1"
        "audit_log_file s' = audit_log_file s1"
      by blast
    with None sp inv show ?thesis by (simp add: sync_repo_def)
  qed
qed

subsection \<open>The query pipeline\<close>

lemma silent_not_notified:
  "\<not> notify_enabled \<lparr>has_context = True, chat = Some c, silent = True\<rparr>"
  by (simp add: notify_enabled_def)

lemma hike_answer_stripped:
  "py_strip ''You wrote about the hike.'' = ''You wrote about the hike.''"
  by (simp add: py_strip_def py_isspace_def)

text \<open>The \<open>try\<close> block of a single-shot query, from any state in which it starts.\<close>

lemma answer_single_shot:
  assumes off: "\<not> MESSAGE_SESSION cfg"
    and q: "upd_text upd = ''What did I write last Tuesday?''"
    and tool: "claude_run env [''claude'', ''-p'', ''What did I write last Tuesday?'',
                 ''--dangerously-skip-permissions''] = Inr p"
    and out: "bytes_decode lib (proc_stdout p) = Inr ''You wrote about the hike.''"
    and err: "proc_stderr p \<noteq> [] \<longrightarrow> (\<exists>t. bytes_decode lib (proc_stderr p) = Inr t)"
    and edit: "edit_reply env = None"
  shows "\<exists>post_acts s'.
      answer cfg lib env upd status_id (acts0, s0) =
        (Inr (),
         acts0 @
         [GetActiveSession (upd_user upd),
          RunClaude [''claude'', ''-p'', ''What did I write last Tuesday?'',
                     ''--dangerously-skip-permissions''],
          EditMessage (upd_chat upd) status_id
            (Reply (fst (format_for_telegram lib (PyStr ''You wrote about the hike.''))))
            (snd (format_for_telegram lib (PyStr ''You wrote about the hike.''))),
          AuditLog (audit_entry (audit_timestamp env ''QUERY'') ''QUERY'' (upd_user upd)
             (upd_username upd)
             [(''query'', PyStr ''What did I write last Tuesday?''),
              (''query_length'', PyInt 30), (''response_length'', PyInt 25),
              (''execution_time_sec'', PyFloat (exec_time env)),
              (''status'', PyStr ''success''),
              (''exit_code'', PyInt (proc_returncode p))])]
         @ post_acts, s')
      \<and> list_all is_sync post_acts \<and> user_sessions s' = user_sessions s0"
proof -
  let ?argv = "[''claude'', ''-p'', ''What did I write last Tuesday?'',
                ''--dangerously-skip-permissions'']"
  let ?t = "''You wrote about the hike.''"
  let ?a1 = "acts0 @ [GetActiveSession (upd_user upd)]"
  let ?a2 = "acts0 @ [GetActiveSession (upd_user upd), RunClaude ?argv]"
  have r1: "resolve_command cfg (now_lookup env) (upd_user upd) (upd_text upd) (acts0, s0)
              = (Inr (new_session_cmd cfg (upd_text upd)), ?a1, s0)"
    using off by (simp add: resolve_command_def get_active_session_def)
  have argv: "as_argv (new_session_cmd cfg (upd_text upd)) = Inr ?argv"
    using off q by (simp add: new_session_cmd_def)
  have r2: "run_query lib env (new_session_cmd cfg (upd_text upd)) (?a1, s0)
              = (Inr (?t, p), ?a2, s0)"
    using tool out err by (auto simp: run_query_def argv hike_answer_stripped)
  have r3: "parse_output cfg lib (now_update env) (upd_user upd) ?t (?a2, s0)
              = (Inr (PyStr ?t), ?a2, s0)"
    using off by (simp add: parse_output_def)
  have r4: "finish_output lib p (PyStr ?t) = Inr (PyStr ?t)"
    by (simp add: finish_output_def)
  let ?edit = "EditMessage (upd_chat upd) status_id
            (Reply (fst (format_for_telegram lib (PyStr ?t))))
            (snd (format_for_telegram lib (PyStr ?t)))"
  let ?entry = "audit_entry (audit_timestamp env ''QUERY'') ''QUERY'' (upd_user upd)
             (upd_username upd)
             [(''query'', PyStr ''What did I write last Tuesday?''),
              (''query_length'', PyInt 30), (''response_length'', PyInt 25),
              (''execution_time_sec'', PyFloat (exec_time env)),
              (''status'', PyStr ''success''),
              (''exit_code'', PyInt (proc_returncode p))]"
  obtain sa where audit: "audit_log lib env ''QUERY'' (upd_user upd) (upd_username upd)
             [(''query'', PyStr (upd_text upd)),
              (''query_length'', PyInt (int (length (upd_text upd)))),
              (''response_length'', PyInt (int (25::nat))),
              (''execution_time_sec'', PyFloat (exec_time env)),
              (''status'', PyStr ''success''),
              (''exit_code'', PyInt (proc_returncode p))] (?a2 @ [?edit], s0)
           = (?a2 @ [?edit, AuditLog ?entry], sa)"
      and sa: "user_sessions sa = user_sessions s0"
    using q by (simp add: audit_log_def Let_def)
  have r5: "\<exists>post_acts s'. reply cfg lib env upd status_id p (PyStr ?t) (?a2, s0)
              = (Inr (), ?a2 @ [?edit, AuditLog ?entry] @ post_acts, s')
            \<and> list_all is_sync post_acts \<and> user_sessions s' = user_sessions s0"
  proof (cases "JOURNAL_SYNC_MODE cfg = Auto")
    case True
    from sync_repo_ok [of "\<lparr>has_context = True, chat = Some (upd_chat upd), silent = True\<rparr>"
        "post_sync env" sa]
    obtain b new s' where "sync_repo (post_sync env)
          \<lparr>has_context = True, chat = Some (upd_chat upd), silent = True\<rparr> sa = (Inr b, new, s')"
      and "list_all is_sync new" "user_sessions s' = user_sessions sa"
      by (auto simp: silent_not_notified)
    with True edit audit sa show ?thesis
      by (simp add: reply_def Let_def)
  next
    case False
    with edit audit sa show ?thesis
      by (simp add: reply_def Let_def)
  qed
  then obtain post_acts s' where
    r5': "reply cfg lib env upd status_id p (PyStr ?t) (?a2, s0)
              = (Inr (), ?a2 @ [?edit, AuditLog ?entry] @ post_acts, s')"
    and inv: "list_all is_sync post_acts" "user_sessions s' = user_sessions s0"
    by blast
  have "answer cfg lib env upd status_id (acts0, s0)
          = (Inr (), ?a2 @ [?edit, AuditLog ?entry] @ post_acts, s')"
    by (simp add: answer_def r1 r2 r3 r4 r5')
  with inv show ?thesis by simp
qed

text \<open>
  C7. The claim: with sessions disabled, the allowed user's query
  \<open>What did I write last Tuesday?\<close> and the tool's output \<open>You wrote about the hike.\<close>
  give a QUERY audit entry with \<open>query_length = 31\<close>, the text is returned unmodified
  and not truncated, and the session store is never called. The query has 30
  characters, and \<open>handle_message\<close> calls \<open>get_active_session\<close> whether sessions are
  enabled or not (it returns none at once when they are disabled). What holds, when
  the status message is sent, the warnings of the first synchronisation are delivered,
  the two output streams decode and the reply is accepted: the run ends without an
  exception; between the actions of the two synchronisations it calls
  \<open>get_active_session\<close>, starts \<open>claude -p\<close> with the query, replaces the status
  message by the formatted text \<open>You wrote about the hike.\<close> in full, and writes one
  audit entry, of type QUERY, with \<open>query_length = 30\<close> and \<open>response_length = 25\<close>;
  \<open>update_session\<close> is not called and the stored sessions are unchanged.
\<close>

theorem single_shot_query:
  assumes auth: "upd_user upd = ALLOWED_USER_ID cfg"
    and off: "\<not> MESSAGE_SESSION cfg"
    and q: "upd_text upd = ''What did I write last Tuesday?''"
    and status: "status_send env = Inr status_id"
    and pre: "JOURNAL_SYNC_MODE cfg = Auto \<longrightarrow> delivers (pre_sync env)"
    and tool: "claude_run env [''claude'', ''-p'', ''What did I write last Tuesday?'',
                 ''--dangerously-skip-permissions''] = Inr p"
    and out: "bytes_decode lib (proc_stdout p) = Inr ''You wrote about the hike.''"
    and err: "proc_stderr p \<noteq> [] \<longrightarrow> (\<exists>t. bytes_decode lib (proc_stderr p) = Inr t)"
    and edit: "edit_reply env = None"
  shows "\<exists>pre_acts post_acts s'.
      handle_message cfg lib env upd s =
        (None,
         [SendMessage (upd_chat upd)
            (if JOURNAL_SYNC_MODE cfg = Auto then SyncingThinking else Thinking)]
         @ pre_acts @
         [GetActiveSession (upd_user upd),
          RunClaude [''claude'', ''-p'', ''What did I write last Tuesday?'',
                     ''--dangerously-skip-permissions''],
          EditMessage (upd_chat upd) status_id
            (Reply (fst (format_for_telegram lib (PyStr ''You wrote about the hike.''))))
            (snd (format_for_telegram lib (PyStr ''You wrote about the hike.''))),
          AuditLog (audit_entry (audit_timestamp env ''QUERY'') ''QUERY'' (upd_user upd)
             (upd_username upd)
             [(''query'', PyStr ''What did I write last Tuesday?''),
              (''query_length'', PyInt 30), (''response_length'', PyInt 25),
              (''execution_time_sec'', PyFloat (exec_time env)),
              (''status'', PyStr ''success''),
              (''exit_code'', PyInt (proc_returncode p))])]
         @ post_acts, s')
      \<and> list_all is_sync pre_acts \<and> list_all is_sync post_acts
      \<and> user_sessions s' = user_sessions s"
proof -
  let ?status = "SendMessage (upd_chat upd)
            (if JOURNAL_SYNC_MODE cfg = Auto then SyncingThinking else Thinking)"
  let ?s2 = "track_message (now_track_status env) (upd_chat upd) status_id
               (track_message (now_track_user env) (upd_chat upd) (upd_message upd) s)"
  have s2: "user_sessions ?s2 = user_sessions s" by (simp add: track_message_def)
  have "\<exists>pre_acts s3.
          (if JOURNAL_SYNC_MODE cfg = Auto then
             (case sync_repo (pre_sync env)
                     \<lparr>has_context = True, chat = Some (upd_chat upd), silent = False\<rparr> ?s2 of
                (Inl e, acts', s') \<Rightarrow> (Some e, [?status] @ acts', s')
              | (Inr _, acts', s') \<Rightarrow> (None, [?status] @ acts', s'))
           else (None, [?status], ?s2)) = (None, [?status] @ pre_acts, s3)
          \<and> list_all is_sync pre_acts \<and> user_sessions s3 = user_sessions s"
  proof (cases "JOURNAL_SYNC_MODE cfg = Auto")
    case True
    with pre have "delivers (pre_sync env)" by simp
    with sync_repo_ok [of "\<lparr>has_context = True, chat = Some (upd_chat upd), silent = False\<rparr>"
        "pre_sync env" ?s2]
    obtain b new s3 where "sync_repo (pre_sync env)
          \<lparr>has_context = True, chat = Some (upd_chat upd), silent = False\<rparr> ?s2 = (Inr b, new, s3)"
      and "list_all is_sync new" "user_sessions s3 = user_sessions ?s2"
      by auto
    with True s2 show ?thesis by simp
  next
    case False
    with s2 show ?thesis by simp
  qed
  then obtain pre_acts s3 where
    synced: "(if JOURNAL_SYNC_MODE cfg = Auto then
             (case sync_repo (pre_sync env)
                     \<lparr>has_context = True, chat = Some (upd_chat upd), silent = False\<rparr> ?s2 of
                (Inl e, acts', s') \<Rightarrow> (Some e, [?status] @ acts', s')
              | (Inr _, acts', s') \<Rightarrow> (None, [?status] @ acts', s'))
           else (None, [?status], ?s2)) = (None, [?status] @ pre_acts, s3)"
    and pre_inv: "list_all is_sync pre_acts" "user_sessions s3 = user_sessions s"
    by blast
  from answer_single_shot [OF off q tool out err edit, where status_id = status_id
      and ?acts0.0 = "[?status] @ pre_acts" and ?s0.0 = s3]
  obtain post_acts s' where
    ans: "answer cfg lib env upd status_id ([?status] @ pre_acts, s3) =
        (Inr (),
         ([?status] @ pre_acts) @
         [GetActiveSession (upd_user upd),
          RunClaude [''claude'', ''-p'', ''What did I write last Tuesday?'',
                     ''--dangerously-skip-permissions''],
          EditMessage (upd_chat upd) status_id
            (Reply (fst (format_for_telegram lib (PyStr ''You wrote about the hike.''))))
            (snd (format_for_telegram lib (PyStr ''You wrote about the hike.''))),
          AuditLog (audit_entry (audit_timestamp env ''QUERY'') ''QUERY'' (upd_user upd)
             (upd_username upd)
             [(''query'', PyStr ''What did I write last Tuesday?''),
              (''query_length'', PyInt 30), (''response_length'', PyInt 25),
              (''execution_time_sec'', PyFloat (exec_time env)),
              (''status'', PyStr ''success''),
              (''exit_code'', PyInt (proc_returncode p))])]
         @ post_acts, s')"
    and post_inv: "list_all is_sync post_acts" "user_sessions s' = user_sessions s3"
    by blast
  have "handle_message cfg lib env upd s =
          (case answer cfg lib env upd status_id ([?status] @ pre_acts, s3) of
             (Inr _, st4) \<Rightarrow> (None, st4)
           | (Inl e, st4) \<Rightarrow> on_error lib env upd status_id e st4)"
    using auth status synced by (simp add: handle_message_def Let_def)
  with ans have "handle_message cfg lib env upd s =
        (None,
         [SendMessage (upd_chat upd)
            (if JOURNAL_SYNC_MODE cfg = Auto then SyncingThinking else Thinking)]
         @ pre_acts @
         [GetActiveSession (upd_user upd),
          RunClaude [''claude'', ''-p'', ''What did I write last Tuesday?'',
                     ''--dangerously-skip-permissions''],
          EditMessage (upd_chat upd) status_id
            (Reply (fst (format_for_telegram lib (PyStr ''You wrote about the hike.''))))
            (snd (format_for_telegram lib (PyStr ''You wrote about the hike.''))),
          AuditLog (audit_entry (audit_timestamp env ''QUERY'') ''QUERY'' (upd_user upd)
             (upd_username upd)
             [(''query'', PyStr ''What did I write last Tuesday?''),
              (''query_length'', PyInt 30), (''response_length'', PyInt 25),
              (''execution_time_sec'', PyFloat (exec_time env)),
              (''status'', PyStr ''success''),
              (''exit_code'', PyInt (proc_returncode p))])]
         @ post_acts, s')"
    by simp
  moreover have "user_sessions s' = user_sessions s"
    using pre_inv post_inv by simp
  ultimately show ?thesis
    using pre_inv(1) post_inv(1) by blast
qed

text \<open>The run of the example: the query is answered and audited with its 30 characters.\<close>

theorem single_shot_query_witness:
  "upd_user hike_update = ALLOWED_USER_ID single_shot_config
   \<and> \<not> MESSAGE_SESSION single_shot_config
   \<and> upd_text hike_update = ''What did I write last Tuesday?''
   \<and> status_send hike_env = Inr 41
   \<and> delivers (pre_sync hike_env)
   \<and> edit_reply hike_env = None
   \<and> fst (handle_message single_shot_config demo_library hike_env hike_update demo_state) = None
   \<and> filter (\<lambda>a. \<not> is_sync a)
        (fst (snd (handle_message single_shot_config demo_library hike_env hike_update demo_state)))
      = [SendMessage 5 SyncingThinking,
         GetActiveSession 7,
         RunClaude [''claude'', ''-p'', ''What did I write last Tuesday?'',
                    ''--dangerously-skip-permissions''],
         EditMessage 5 41 (Reply (PyStr ''You wrote about the hike.'')) None,
         AuditLog hike_entry]"
proof -
  have side: "upd_user hike_update = ALLOWED_USER_ID single_shot_config"
    "\<not> MESSAGE_SESSION single_shot_config"
    "upd_text hike_update = ''What did I write last Tuesday?''"
    "status_send hike_env = Inr 41"
    "JOURNAL_SYNC_MODE single_shot_config = Auto \<longrightarrow> delivers (pre_sync hike_env)"
    "claude_run hike_env [''claude'', ''-p'', ''What did I write last Tuesday?'',
        ''--dangerously-skip-permissions'']
       = Inr \<lparr>proc_stdout = hike_answer, proc_stderr = [], proc_returncode = 0\<rparr>"
    "bytes_decode demo_library
        (proc_stdout \<lparr>proc_stdout = hike_answer, proc_stderr = [], proc_returncode = 0\<rparr>)
       = Inr ''You wrote about the hike.''"
    "proc_stderr \<lparr>proc_stdout = hike_answer, proc_stderr = [], proc_returncode = 0\<rparr> \<noteq> []
       \<longrightarrow> (\<exists>t. bytes_decode demo_library
             (proc_stderr \<lparr>proc_stdout = hike_answer, proc_stderr = [], proc_returncode = 0\<rparr>)
           = Inr t)"
    "edit_reply hike_env = None"
    by (simp_all add: hike_update_def single_shot_config_def demo_config_def hike_env_def
          hike_query_def hike_answer_def demo_library_def ascii_decode_def delivers_def
          script_ok_env_def pull_fails_env_def)
  from single_shot_query [OF side, of demo_state]
  obtain pre_acts post_acts s' where
    run: "handle_message single_shot_config demo_library hike_env hike_update demo_state =
        (None,
         [SendMessage (upd_chat hike_update)
            (if JOURNAL_SYNC_MODE single_shot_config = Auto then SyncingThinking else Thinking)]
         @ pre_acts @
         [GetActiveSession (upd_user hike_update),
          RunClaude [''claude'', ''-p'', ''What did I write last Tuesday?'',
                     ''--dangerously-skip-permissions''],
          EditMessage (upd_chat hike_update) 41
            (Reply (fst (format_for_telegram demo_library (PyStr ''You wrote about the hike.''))))
            (snd (format_for_telegram demo_library (PyStr ''You wrote about the hike.''))),
          AuditLog (audit_entry (audit_timestamp hike_env ''QUERY'') ''QUERY'' (upd_user hike_update)
             (upd_username hike_update)
             [(''query'', PyStr ''What did I write last Tuesday?''),
              (''query_length'', PyInt 30), (''response_length'', PyInt 25),
              (''execution_time_sec'', PyFloat (exec_time hike_env)),
              (''status'', PyStr ''success''),
              (''exit_code'', PyInt (proc_returncode
                  \<lparr>proc_stdout = hike_answer, proc_stderr = [], proc_returncode = 0\<rparr>))])]
         @ post_acts, s')"
    and inv: "list_all is_sync pre_acts" "list_all is_sync post_acts"
    by blast
  have f: "\<And>xs. list_all is_sync xs \<Longrightarrow> filter (\<lambda>a. \<not> is_sync a) xs = []"
    by (simp add: list_all_iff)
  show ?thesis
    unfolding run using side(1-4,9) inv
    by (simp add: f audit_entry_def hike_entry_def hike_query_def hike_answer_def
          format_for_telegram_def demo_library_def hike_update_def
          single_shot_config_def demo_config_def hike_env_def delivers_def script_ok_env_def
          pull_fails_env_def)
qed

text \<open>
  The claim fails on the run of the example: the audit entry written has
  \<open>query_length = 30\<close>, and \<open>get_active_session\<close> is among the calls.
\<close>

theorem single_shot_query_length_30:
  "length hike_query = 30
   \<and> handle_message single_shot_config demo_library hike_env hike_update demo_state =
       (None,
        [SendMessage 5 SyncingThinking, RunScript, GetActiveSession 7,
         RunClaude [''claude'', ''-p'', ''What did I write last Tuesday?'',
                    ''--dangerously-skip-permissions''],
         EditMessage 5 41 (Reply (PyStr ''You wrote about the hike.'')) None,
         AuditLog
           (PyDict [(''timestamp'', PyStr ''2026-11-04T10:00:00.000250''),
                    (''event'', PyStr ''QUERY''), (''user_id'', PyInt 7),
                    (''username'', PyStr ''aj''),
                    (''query'', PyStr ''What did I write last Tuesday?''),
                    (''query_length'', PyInt 30), (''response_length'', PyInt 25),
                    (''execution_time_sec'', PyFloat (Finite (5 / 2))),
                    (''status'', PyStr ''success''), (''exit_code'', PyInt 0)]),
         RunScript],
        \<lparr>tracked_messages =
           [((5, 10), hours 1), ((5, 11), hours 30), ((5, 40), hours 30), ((5, 41), hours 30 + 1)],
         user_sessions = [(7, \<lparr>session_id = PyStr ''abc123'', last_active = hours 29\<rparr>)],
         audit_log_file = Lines [hike_line @ ''\<newline>'']\<rparr>)"
  by (simp add: handle_message_def answer_def resolve_command_def run_query_def parse_output_def
        finish_output_def reply_def audit_log_def audit_entry_def append_line_def
        format_for_telegram_def new_session_cmd_def get_active_session_def track_message_def
        sync_repo_def script_phase_def
        hike_update_def single_shot_config_def demo_config_def hike_env_def hike_query_def
        hike_answer_def demo_library_def ascii_decode_def script_ok_env_def pull_fails_env_def
        demo_state_def hike_entry_def py_strip_def py_isspace_def Let_def)









end
